theory Spec2Isabelle
  imports Main "HOL-Library.Word" "HOL-Library.Monad_Syntax"
begin

section \<open>Single-precision floating point\<close>

text \<open>
  The C++ type \<open>float\<close> is IEEE 754 binary32. A value is its 32-bit pattern: bit 31 is the
  sign, bits 30..23 the biased exponent, bits 22..0 the fraction. The low 31 bits, read as
  an integer, order the magnitudes: \<open>0x7F800000\<close> is infinity and everything above it is a
  NaN. All arithmetic below is exact integer arithmetic followed by one rounding to nearest,
  ties to even, which is what the hardware does in its default rounding mode when every
  operation on \<open>float\<close> is carried out in single precision (SSE arithmetic). One quiet
  NaN stands for every NaN an operation produces; its sign and payload differ between
  machines, and no statement below depends on them.
\<close>

type_synonym float32 = "32 word"

definition f32_sign :: "float32 \<Rightarrow> bool" where
  "f32_sign x = (2 ^ 31 \<le> uint x)"

definition f32_mag :: "float32 \<Rightarrow> int" where
  "f32_mag x = uint x mod 2 ^ 31"

definition f32_make :: "bool \<Rightarrow> int \<Rightarrow> float32" where
  "f32_make s m = word_of_int ((if s then 2 ^ 31 else 0) + m)"

definition f32_inf_mag :: int where
  "f32_inf_mag = 255 * 2 ^ 23"

definition f32_is_nan :: "float32 \<Rightarrow> bool" where
  "f32_is_nan x = (f32_inf_mag < f32_mag x)"

definition f32_is_inf :: "float32 \<Rightarrow> bool" where
  "f32_is_inf x = (f32_mag x = f32_inf_mag)"

definition f32_is_zero :: "float32 \<Rightarrow> bool" where
  "f32_is_zero x = (f32_mag x = 0)"

definition f32_nan :: float32 where
  "f32_nan = 0x7FC00000"

text \<open>
  A finite value is \<open>\<plusminus> f32_signif x * 2 ^ f32_expo x\<close>: the significand carries the
  hidden bit unless the exponent field is zero (a subnormal number or zero).
\<close>

definition f32_signif :: "float32 \<Rightarrow> int" where
  "f32_signif x =
     (if f32_mag x div 2 ^ 23 = 0 then f32_mag x mod 2 ^ 23
      else 2 ^ 23 + f32_mag x mod 2 ^ 23)"

definition f32_expo :: "float32 \<Rightarrow> int" where
  "f32_expo x =
     (if f32_mag x div 2 ^ 23 = 0 then - 149 else f32_mag x div 2 ^ 23 - 150)"

function bit_length :: "int \<Rightarrow> nat" where
  "bit_length n = (if n \<le> 0 then 0 else Suc (bit_length (n div 2)))"
  by pat_completeness auto
termination
  by (relation "measure nat") auto

declare bit_length.simps [simp del]

text \<open>\<open>floor_log2 p q\<close> is the integer \<open>e\<close> with \<open>2 ^ e \<le> p / q < 2 ^ (e + 1)\<close>, for
  positive \<open>p\<close> and \<open>q\<close>.\<close>

definition floor_log2 :: "int \<Rightarrow> int \<Rightarrow> int" where
  "floor_log2 p q =
     (let e0 = int (bit_length p) - int (bit_length q)
      in if q * 2 ^ nat e0 \<le> p * 2 ^ nat (- e0) then e0 else e0 - 1)"

text \<open>The quotient \<open>p / q\<close> rounded to the nearest integer, a tie going to the even one.\<close>

definition rne_div :: "int \<Rightarrow> int \<Rightarrow> int" where
  "rne_div p q =
     (let d = p div q; r = p mod q
      in if 2 * r < q then d
         else if q < 2 * r then d + 1
         else if even d then d else d + 1)"

text \<open>
  \<open>round_mag p q\<close> is the magnitude pattern of the binary32 value nearest to the positive
  rational \<open>p / q\<close>. With \<open>e\<close> the exponent of the result's binade (at least \<open>-126\<close>, where
  the subnormal numbers live), the quotient is scaled so that one unit is one unit in the
  last place and rounded to an integer \<open>n \<le> 2 ^ 24\<close>. Since the exponent field of a
  normal number is \<open>e + 127\<close> and its fraction \<open>n - 2 ^ 23\<close>, the pattern is
  \<open>(e + 126) * 2 ^ 23 + n\<close> in every case: a normal number, a subnormal one
  (\<open>n < 2 ^ 23\<close>) and a carry into the next binade (\<open>n = 2 ^ 24\<close>). A result beyond the
  largest finite value is infinity.
\<close>

definition round_mag :: "int \<Rightarrow> int \<Rightarrow> int" where
  "round_mag p q =
     (if p = 0 then 0
      else let e = max (floor_log2 p q) (- 126);
               n = rne_div (p * 2 ^ nat (23 - e)) (q * 2 ^ nat (e - 23))
           in min ((e + 126) * 2 ^ 23 + n) f32_inf_mag)"

text \<open>Conversion of an integer (\<open>long long\<close> or \<open>int\<close>) to \<open>float\<close>.\<close>

definition f32_of_int :: "int \<Rightarrow> float32" where
  "f32_of_int n = f32_make (n < 0) (round_mag \<bar>n\<bar> 1)"

definition f32_add :: "float32 \<Rightarrow> float32 \<Rightarrow> float32" where
  "f32_add a b =
     (if f32_is_nan a \<or> f32_is_nan b then f32_nan
      else if f32_is_inf a then
        (if f32_is_inf b \<and> f32_sign a \<noteq> f32_sign b then f32_nan else a)
      else if f32_is_inf b then b
      else
        let e = min (f32_expo a) (f32_expo b);
            va = (if f32_sign a then - 1 else 1) * f32_signif a * 2 ^ nat (f32_expo a - e);
            vb = (if f32_sign b then - 1 else 1) * f32_signif b * 2 ^ nat (f32_expo b - e);
            n = va + vb
        in if n = 0 then f32_make (f32_sign a \<and> f32_sign b) 0
           else f32_make (n < 0) (round_mag (\<bar>n\<bar> * 2 ^ nat e) (2 ^ nat (- e))))"

definition f32_mul :: "float32 \<Rightarrow> float32 \<Rightarrow> float32" where
  "f32_mul a b =
     (let s = (f32_sign a \<noteq> f32_sign b) in
      if f32_is_nan a \<or> f32_is_nan b then f32_nan
      else if f32_is_inf a \<or> f32_is_inf b then
        (if f32_is_zero a \<or> f32_is_zero b then f32_nan else f32_make s f32_inf_mag)
      else
        let e = f32_expo a + f32_expo b
        in f32_make s (round_mag (f32_signif a * f32_signif b * 2 ^ nat e) (2 ^ nat (- e))))"

definition f32_div :: "float32 \<Rightarrow> float32 \<Rightarrow> float32" where
  "f32_div a b =
     (let s = (f32_sign a \<noteq> f32_sign b) in
      if f32_is_nan a \<or> f32_is_nan b then f32_nan
      else if f32_is_inf a then (if f32_is_inf b then f32_nan else f32_make s f32_inf_mag)
      else if f32_is_inf b then f32_make s 0
      else if f32_is_zero b then (if f32_is_zero a then f32_nan else f32_make s f32_inf_mag)
      else
        let e = f32_expo a - f32_expo b
        in f32_make s (round_mag (f32_signif a * 2 ^ nat e) (f32_signif b * 2 ^ nat (- e))))"

text \<open>The comparison \<open>a >= b\<close>: false when either side is a NaN, and the two zeros are equal.\<close>

definition f32_key :: "float32 \<Rightarrow> int" where
  "f32_key x = (if f32_sign x then - f32_mag x else f32_mag x)"

definition f32_ge :: "float32 \<Rightarrow> float32 \<Rightarrow> bool" where
  "f32_ge a b = (\<not> f32_is_nan a \<and> \<not> f32_is_nan b \<and> f32_key b \<le> f32_key a)"

text \<open>The literals of the source: \<open>0.0f\<close>, \<open>0.5f\<close>, \<open>1.0f\<close>, \<open>500.0f\<close> and \<open>1000.0f\<close>.\<close>

definition f32_0 :: float32 where "f32_0 = 0x00000000"
definition f32_0_5 :: float32 where "f32_0_5 = 0x3F000000"
definition f32_1 :: float32 where "f32_1 = 0x3F800000"
definition f32_500 :: float32 where "f32_500 = 0x43FA0000"
definition f32_1000 :: float32 where "f32_1000 = 0x447A0000"

section \<open>The presentation hook (dx11\_hook.h, dx11\_hook.cpp)\<close>

text \<open>
  \<open>UINT\<close> and \<open>HRESULT\<close> are 32-bit; \<open>FAILED(hr)\<close> tests the sign bit. A pointer is an
  address, 0 being \<open>nullptr\<close>. \<open>high_resolution_clock::time_point\<close> is a tick count of
  the clock, in nanoseconds, and a default-constructed one is the epoch.

  The original \<open>Present\<close> belongs to the host: it is a function of the host's state \<open>'w\<close>
  and of its three arguments, returning a code and the host's next state. The captured
  function pointer \<open>originalPresent\<close> is \<open>None\<close> while it is \<open>nullptr\<close>.
\<close>

type_synonym UINT = "32 word"
type_synonym HRESULT = "32 word"
type_synonym pointer = nat
type_synonym time_point = int

type_synonym 'w PresentFunc = "'w \<Rightarrow> pointer \<Rightarrow> UINT \<Rightarrow> UINT \<Rightarrow> HRESULT \<times> 'w"

definition FAILED :: "HRESULT \<Rightarrow> bool" where
  "FAILED hr = (sint hr < 0)"

text \<open>The member \<open>context\<close> is named \<open>context_ptr\<close> here (\<open>context\<close> is reserved).\<close>

record 'w DX11Hook =
  device :: pointer
  context_ptr :: pointer
  swapChain :: pointer
  originalPresent :: "'w PresentFunc option"
  initialized :: bool
  lastFrameTime :: time_point
  currentFPS :: float32
  frameTime :: float32
  frameCount :: "32 word"
  fpsAccumulator :: float32
  cpuUsage :: float32
  cpuTemp :: float32
  gpuUsage :: float32
  gpuTemp :: float32
  ramUsage :: "32 word"
  vramUsage :: "32 word"

text \<open>The default member initialisers of the class.\<close>

definition DX11Hook_default :: "'w DX11Hook" where
  "DX11Hook_default =
     \<lparr>device = 0, context_ptr = 0, swapChain = 0, originalPresent = None,
      initialized = False, lastFrameTime = 0, currentFPS = f32_0, frameTime = f32_0,
      frameCount = 0, fpsAccumulator = f32_0, cpuUsage = f32_0, cpuTemp = f32_0,
      gpuUsage = f32_0, gpuTemp = f32_0, ramUsage = 0, vramUsage = 0\<rparr>"

text \<open>
  What \<open>D3D11CreateDeviceAndSwapChain\<close> hands back to \<open>Initialize\<close>: its result code,
  the three objects it stores through the out-parameters, and entry 8 of the swap chain's
  virtual table.
\<close>

record 'w DeviceProbe =
  probe_hr :: HRESULT
  probe_swapChain :: pointer
  probe_device :: pointer
  probe_context :: pointer
  probe_Present :: "'w PresentFunc"

text \<open>
  \<open>DX11Hook::Initialize\<close>. The dummy window and the releases at the end touch nothing the
  class keeps. \<open>now\<close> is the clock reading of line 48.
\<close>

definition DX11Hook_Initialize ::
  "'w DX11Hook \<Rightarrow> 'w DeviceProbe \<Rightarrow> time_point \<Rightarrow> bool \<times> 'w DX11Hook" where
  "DX11Hook_Initialize s probe now =
     (if initialized s then (True, s)
      else
        let s1 = s\<lparr>swapChain := probe_swapChain probe, device := probe_device probe,
                    context_ptr := probe_context probe\<rparr>
        in if FAILED (probe_hr probe) then (False, s1)
           else (True, s1\<lparr>originalPresent := Some (probe_Present probe),
                            lastFrameTime := now, initialized := True\<rparr>))"

definition DX11Hook_Shutdown :: "'w DX11Hook \<Rightarrow> 'w DX11Hook" where
  "DX11Hook_Shutdown s = s\<lparr>initialized := False\<rparr>"

text \<open>\<open>duration_cast<microseconds>\<close> of a nanosecond count: integer division, which in C++
  truncates towards zero.\<close>

definition duration_cast_microseconds :: "int \<Rightarrow> int" where
  "duration_cast_microseconds ns = sgn ns * (\<bar>ns\<bar> div 1000)"

text \<open>
  \<open>DX11Hook::CalculateFPS\<close>; \<open>now\<close> is the clock reading of its first line. The counter
  \<open>frameCount\<close> is the 32-bit \<open>int\<close> of the class: \<open>frameCount++\<close> wraps around from
  \<open>INT_MAX\<close> to \<open>INT_MIN\<close>, as the two's-complement machines the library runs on do,
  and the counter is read as a signed number where it is converted to \<open>float\<close>.
\<close>

definition DX11Hook_CalculateFPS :: "'w DX11Hook \<Rightarrow> time_point \<Rightarrow> 'w DX11Hook" where
  "DX11Hook_CalculateFPS s now =
     (let duration = duration_cast_microseconds (now - lastFrameTime s);
          s1 = s\<lparr>frameTime := f32_div (f32_of_int duration) f32_1000\<rparr>;
          s2 = s1\<lparr>lastFrameTime := now\<rparr>;
          s3 = s2\<lparr>frameCount := frameCount s2 + 1\<rparr>;
          s4 = s3\<lparr>fpsAccumulator := f32_add (fpsAccumulator s3) (frameTime s3)\<rparr>
      in if f32_ge (fpsAccumulator s4) f32_500
         then s4\<lparr>currentFPS :=
                    f32_div (f32_mul (f32_of_int (sint (frameCount s4))) f32_1000)
                      (fpsAccumulator s4),
                  frameCount := 0, fpsAccumulator := f32_0\<rparr>
         else s4)"

text \<open>
  \<open>DX11Hook::HookedPresent\<close>, on the singleton \<open>s\<close> and the host's state \<open>w\<close>. A call
  through a null \<open>originalPresent\<close> does not return: the result is \<open>None\<close>.
\<close>

definition DX11Hook_HookedPresent ::
  "'w DX11Hook \<Rightarrow> 'w \<Rightarrow> time_point \<Rightarrow> pointer \<Rightarrow> UINT \<Rightarrow> UINT
     \<Rightarrow> (HRESULT \<times> 'w DX11Hook \<times> 'w) option" where
  "DX11Hook_HookedPresent s w now pSwapChain SyncInterval Flags =
     (let hook = DX11Hook_CalculateFPS s now
      in case originalPresent hook of
           None \<Rightarrow> None
         | Some present \<Rightarrow>
             (case present w pSwapChain SyncInterval Flags of
                (hr, w') \<Rightarrow> Some (hr, hook, w')))"

definition DX11Hook_GetFPS :: "'w DX11Hook \<Rightarrow> float32" where
  "DX11Hook_GetFPS s = currentFPS s"

definition DX11Hook_GetFrameTime :: "'w DX11Hook \<Rightarrow> float32" where
  "DX11Hook_GetFrameTime s = frameTime s"

definition DX11Hook_SetMetrics ::
  "'w DX11Hook \<Rightarrow> float32 \<Rightarrow> float32 \<Rightarrow> float32 \<Rightarrow> float32 \<Rightarrow> 32 word \<Rightarrow> 32 word
     \<Rightarrow> 'w DX11Hook" where
  "DX11Hook_SetMetrics s cpu cpuT gpu gpuT ram vram =
     s\<lparr>cpuUsage := cpu, cpuTemp := cpuT, gpuUsage := gpu, gpuTemp := gpuT,
       ramUsage := ram, vramUsage := vram\<rparr>"

text \<open>Lines 67 to 69 of \<open>CalculateFPS\<close> as a function of the tick difference: the frame
  time in milliseconds.\<close>

definition frame_ms :: "int \<Rightarrow> float32" where
  "frame_ms ns = f32_div (f32_of_int (duration_cast_microseconds ns)) f32_1000"

text \<open>The test of line 76 for a tick at \<open>now\<close> in state \<open>s\<close>.\<close>

definition reaches_threshold :: "'w DX11Hook \<Rightarrow> time_point \<Rightarrow> bool" where
  "reaches_threshold s now =
     f32_ge (f32_add (fpsAccumulator s) (frame_ms (now - lastFrameTime s))) f32_500"

section \<open>The conversions of \<open>snprintf\<close>\<close>

text \<open>The decimal digits of a non-negative integer.\<close>

definition digit_char :: "int \<Rightarrow> char" where
  "digit_char d = char_of (48 + d)"

function dec_digits :: "int \<Rightarrow> string" where
  "dec_digits n =
     (if n < 10 then [digit_char n] else dec_digits (n div 10) @ [digit_char (n mod 10)])"
  by pat_completeness auto
termination
  by (relation "measure nat") auto

declare dec_digits.simps [simp del]

definition zero_pad :: "nat \<Rightarrow> string \<Rightarrow> string" where
  "zero_pad k ds = replicate (k - length ds) (CHR ''0'') @ ds"

text \<open>
  \<open>%.<prec>f\<close> of a \<open>float\<close> argument. The argument is promoted to \<open>double\<close>, which
  changes no value, and the exact value is rounded to \<open>prec\<close> decimals, a tie going to
  the even digit; the sign is printed whenever the sign bit is set. An infinity prints as
  \<open>inf\<close> and a NaN as \<open>nan\<close> (C99 7.19.6.1; a runtime may add a character sequence
  after \<open>nan\<close>, which is not modelled).
\<close>

definition fmt_f :: "nat \<Rightarrow> float32 \<Rightarrow> string" where
  "fmt_f prec x =
     (if f32_sign x then ''-'' else []) @
     (if f32_is_nan x then ''nan''
      else if f32_is_inf x then ''inf''
      else
        let n = rne_div (f32_signif x * 10 ^ prec * 2 ^ nat (f32_expo x))
                  (2 ^ nat (- f32_expo x))
        in if prec = 0 then dec_digits n
           else dec_digits (n div 10 ^ prec) @ ''.'' @ zero_pad prec (dec_digits (n mod 10 ^ prec)))"

text \<open>\<open>%d\<close> of an \<open>int\<close>.\<close>

definition fmt_d :: "32 word \<Rightarrow> string" where
  "fmt_d i = (if sint i < 0 then ''-'' @ dec_digits (- sint i) else dec_digits (sint i))"

text \<open>
  \<open>snprintf(buf, size, ...)\<close> leaves in \<open>buf\<close> the first \<open>size - 1\<close> characters of the
  formatted text, followed by a terminator, and returns the length of the whole text.
  \<open>c_str_of_snprintf size text\<close> is the C string then found in \<open>buf\<close>.
\<close>

definition c_str_of_snprintf :: "nat \<Rightarrow> string \<Rightarrow> string" where
  "c_str_of_snprintf n text = take (n - 1) text"

definition newline :: char where
  "newline = CHR 0x0A"

text \<open>The degree sign of the source file, which is UTF-8: the bytes C2 B0.\<close>

definition degree_sign :: string where
  "degree_sign = [CHR 0xC2, CHR 0xB0]"

section \<open>The overlay (imgui\_overlay.h, imgui\_overlay.cpp)\<close>

text \<open>
  The members of \<open>OverlayMetrics\<close> carry the prefix \<open>metrics_\<close>, since the hook has
  members of the same names. \<open>fontFamily\<close> is the array of 64 characters, \<open>color\<close> the
  array of four floats.
\<close>

record OverlayMetrics =
  metrics_fps :: float32
  metrics_frameTime :: float32
  metrics_cpuUsage :: float32
  metrics_cpuTemp :: float32
  metrics_gpuUsage :: float32
  metrics_gpuTemp :: float32
  metrics_ramUsage :: "32 word"
  metrics_vramUsage :: "32 word"

record OverlayConfig =
  fontFamily :: string
  fontSize :: int
  color :: "float32 \<times> float32 \<times> float32 \<times> float32"
  opacity :: float32
  showFPS :: bool
  showCPU :: bool
  showGPU :: bool
  showRAM :: bool
  showTemps :: bool

definition f32_0_8 :: float32 where "f32_0_8 = 0x3F4CCCCD"

definition OverlayMetrics_default :: OverlayMetrics where
  "OverlayMetrics_default =
     \<lparr>metrics_fps = f32_0, metrics_frameTime = f32_0, metrics_cpuUsage = f32_0,
      metrics_cpuTemp = f32_0, metrics_gpuUsage = f32_0, metrics_gpuTemp = f32_0,
      metrics_ramUsage = 0, metrics_vramUsage = 0\<rparr>"

definition OverlayConfig_default :: OverlayConfig where
  "OverlayConfig_default =
     \<lparr>fontFamily = ''Segoe UI'' @ replicate 56 (CHR 0x00), fontSize = 14,
      color = (f32_0, f32_1, f32_0_5, f32_1), opacity = f32_0_8,
      showFPS = True, showCPU = True, showGPU = True, showRAM = True, showTemps = True\<rparr>"

text \<open>The static members of \<open>ImGuiOverlay\<close>; \<open>initialized\<close> and \<open>opacity\<close> carry the
  prefix \<open>overlay_\<close>.\<close>

record ImGuiOverlay =
  isVisible :: bool
  overlay_initialized :: bool
  posX :: int
  posY :: int
  overlay_opacity :: float32
  config :: OverlayConfig

definition ImGuiOverlay_static :: ImGuiOverlay where
  "ImGuiOverlay_static =
     \<lparr>isVisible = True, overlay_initialized = False, posX = 10, posY = 10,
      overlay_opacity = f32_0_8, config = OverlayConfig_default\<rparr>"

text \<open>
  \<open>strncpy(dest, src, n)\<close>: \<open>n\<close> characters are written, the source string followed by
  terminators (or its first \<open>n\<close> characters when it is longer), and the rest of \<open>dest\<close>
  stays.
\<close>

definition strncpy :: "string \<Rightarrow> string \<Rightarrow> nat \<Rightarrow> string" where
  "strncpy dest src n = take n (src @ replicate (n - length src) (CHR 0x00)) @ drop n dest"

text \<open>The C string held by an array: the characters before the first terminator.\<close>

definition c_str :: "string \<Rightarrow> string" where
  "c_str a = takeWhile (\<lambda>c. c \<noteq> CHR 0x00) a"

text \<open>\<open>ImGuiOverlay::Initialize\<close>; its two arguments are not used.\<close>

definition ImGuiOverlay_Initialize :: "ImGuiOverlay \<Rightarrow> ImGuiOverlay" where
  "ImGuiOverlay_Initialize ov =
     (if overlay_initialized ov then ov
      else
        let c0 = config ov;
            c1 = c0\<lparr>fontSize := 14\<rparr>;
            c2 = c1\<lparr>showFPS := True, showCPU := True, showGPU := True, showRAM := True,
                    showTemps := True\<rparr>;
            c3 = c2\<lparr>fontFamily := strncpy (fontFamily c2) ''Segoe UI'' (64 - 1)\<rparr>;
            c4 = c3\<lparr>color := (f32_0, f32_1, f32_0_5, f32_1)\<rparr>
        in ov\<lparr>config := c4, overlay_initialized := True\<rparr>)"

definition ImGuiOverlay_Shutdown :: "ImGuiOverlay \<Rightarrow> ImGuiOverlay" where
  "ImGuiOverlay_Shutdown ov =
     (if \<not> overlay_initialized ov then ov else ov\<lparr>overlay_initialized := False\<rparr>)"

definition ImGuiOverlay_SetVisible :: "ImGuiOverlay \<Rightarrow> bool \<Rightarrow> ImGuiOverlay" where
  "ImGuiOverlay_SetVisible ov visible = ov\<lparr>isVisible := visible\<rparr>"

definition ImGuiOverlay_SetPosition :: "ImGuiOverlay \<Rightarrow> int \<Rightarrow> int \<Rightarrow> ImGuiOverlay" where
  "ImGuiOverlay_SetPosition ov x y = ov\<lparr>posX := x, posY := y\<rparr>"

definition ImGuiOverlay_SetOpacity :: "ImGuiOverlay \<Rightarrow> float32 \<Rightarrow> ImGuiOverlay" where
  "ImGuiOverlay_SetOpacity ov op = ov\<lparr>overlay_opacity := op\<rparr>"

definition ImGuiOverlay_SetConfig :: "ImGuiOverlay \<Rightarrow> OverlayConfig \<Rightarrow> ImGuiOverlay" where
  "ImGuiOverlay_SetConfig ov cfg = ov\<lparr>config := cfg\<rparr>"

definition ImGuiOverlay_IsVisible :: "ImGuiOverlay \<Rightarrow> bool" where
  "ImGuiOverlay_IsVisible ov = isVisible ov"

text \<open>
  \<open>ImGuiOverlay::GetRenderedText\<close>. Each \<open>snprintf\<close> goes through a buffer of 64
  characters, whose C string is appended to \<open>result\<close>.
\<close>

definition ImGuiOverlay_GetRenderedText :: "ImGuiOverlay \<Rightarrow> OverlayMetrics \<Rightarrow> string" where
  "ImGuiOverlay_GetRenderedText ov metrics =
     (let cfg = config ov;
          r0 = [];
          r1 = (if showFPS cfg
                then r0 @ c_str_of_snprintf 64
                       (''FPS: '' @ fmt_f 1 (metrics_fps metrics) @ [newline])
                else r0);
          r2 = (if showCPU cfg
                then let a = r1 @ c_str_of_snprintf 64
                               (''CPU: '' @ fmt_f 1 (metrics_cpuUsage metrics) @ ''%'');
                         b = (if showTemps cfg
                              then a @ c_str_of_snprintf 64
                                     ('' ('' @ fmt_f 0 (metrics_cpuTemp metrics) @ degree_sign @ ''C)'')
                              else a)
                     in b @ [newline]
                else r1);
          r3 = (if showGPU cfg
                then let a = r2 @ c_str_of_snprintf 64
                               (''GPU: '' @ fmt_f 1 (metrics_gpuUsage metrics) @ ''%'');
                         b = (if showTemps cfg
                              then a @ c_str_of_snprintf 64
                                     ('' ('' @ fmt_f 0 (metrics_gpuTemp metrics) @ degree_sign @ ''C)'')
                              else a)
                     in b @ [newline]
                else r2);
          r4 = (if showRAM cfg
                then let a = r3 @ c_str_of_snprintf 64
                               (''RAM: '' @ fmt_d (metrics_ramUsage metrics) @ '' MB'' @ [newline])
                     in a @ c_str_of_snprintf 64
                          (''VRAM: '' @ fmt_d (metrics_vramUsage metrics) @ '' MB'' @ [newline])
                else r3)
      in r4)"

text \<open>
  The text block of \<open>ImGuiOverlay::Render\<close> (lines 70 to 103) writes into \<open>buffer\<close>, an
  array of 512 characters on the stack, at a running \<open>offset\<close>. A character of the array
  is \<open>None\<close> while nothing has been stored in it.

  \<open>snprintf(buffer + offset, sizeof(buffer) - offset, ...)\<close>: when \<open>offset\<close> is beyond
  the size of the array, the pointer is outside the array and the unsigned size wraps
  around, so the call is undefined and the result is \<open>None\<close>. Otherwise at most
  \<open>room - 1\<close> characters and a terminator are stored from \<open>offset\<close> on, where
  \<open>room\<close> is the size passed, nothing at all when \<open>room\<close> is 0, and the length of the
  whole formatted text is added to \<open>offset\<close>.
\<close>

definition snprintf_at :: "char option list \<times> nat \<Rightarrow> string \<Rightarrow> (char option list \<times> nat) option" where
  "snprintf_at st text =
     (case st of (buffer, offset) \<Rightarrow>
        if length buffer < offset then None
        else
          let room = length buffer - offset;
              stored = (if room = 0 then []
                        else map Some (take (room - 1) text) @ [Some (CHR 0x00)])
          in Some (take offset buffer @ stored @ drop (offset + length stored) buffer,
                   offset + length text))"

definition Render_text :: "OverlayConfig \<Rightarrow> OverlayMetrics \<Rightarrow> (char option list \<times> nat) option" where
  "Render_text cfg metrics =
     do {
       st \<leftarrow> Some (replicate 512 None, 0);
       st \<leftarrow> (if showFPS cfg
              then snprintf_at st (''FPS: '' @ fmt_f 1 (metrics_fps metrics) @ [newline])
              else Some st);
       st \<leftarrow> (if showCPU cfg
              then do {
                st \<leftarrow> snprintf_at st (''CPU: '' @ fmt_f 1 (metrics_cpuUsage metrics) @ ''%'');
                st \<leftarrow> (if showTemps cfg
                       then snprintf_at st
                              ('' ('' @ fmt_f 0 (metrics_cpuTemp metrics) @ degree_sign @ ''C)'')
                       else Some st);
                snprintf_at st [newline]
              }
              else Some st);
       st \<leftarrow> (if showGPU cfg
              then do {
                st \<leftarrow> snprintf_at st (''GPU: '' @ fmt_f 1 (metrics_gpuUsage metrics) @ ''%'');
                st \<leftarrow> (if showTemps cfg
                       then snprintf_at st
                              ('' ('' @ fmt_f 0 (metrics_gpuTemp metrics) @ degree_sign @ ''C)'')
                       else Some st);
                snprintf_at st [newline]
              }
              else Some st);
       (if showRAM cfg
        then do {
          st \<leftarrow> snprintf_at st (''RAM: '' @ fmt_d (metrics_ramUsage metrics) @ '' MB'' @ [newline]);
          snprintf_at st (''VRAM: '' @ fmt_d (metrics_vramUsage metrics) @ '' MB'' @ [newline])
        }
        else Some st)
     }"

text \<open>
  \<open>ImGuiOverlay::Render\<close>. The drawing calls are comments in the source, so the buffer
  is built and dropped; what is left of the call is the state of the overlay, or \<open>None\<close>
  when a write has left the buffer.
\<close>

definition ImGuiOverlay_Render :: "ImGuiOverlay \<Rightarrow> OverlayMetrics \<Rightarrow> ImGuiOverlay option" where
  "ImGuiOverlay_Render ov metrics =
     (if \<not> isVisible ov \<or> \<not> overlay_initialized ov then Some ov
      else case Render_text (config ov) metrics of
             None \<Rightarrow> None
           | Some st \<Rightarrow> Some ov)"

section \<open>The exported functions (main.cpp)\<close>

text \<open>
  The state of the library: the singleton of \<open>DX11Hook::GetInstance\<close>, the static members
  of \<open>ImGuiOverlay\<close>, and the two file-level variables of main.cpp.
\<close>

record 'w globals =
  hook :: "'w DX11Hook"
  overlay :: ImGuiOverlay
  g_metrics :: OverlayMetrics
  g_config :: OverlayConfig

definition globals_at_load :: "'w globals" where
  "globals_at_load =
     \<lparr>hook = DX11Hook_default, overlay = ImGuiOverlay_static,
      g_metrics = OverlayMetrics_default, g_config = OverlayConfig_default\<rparr>"

definition SetMetrics ::
  "'w globals \<Rightarrow> float32 \<Rightarrow> float32 \<Rightarrow> float32 \<Rightarrow> float32 \<Rightarrow> 32 word \<Rightarrow> 32 word \<Rightarrow> 'w globals" where
  "SetMetrics st cpu_usage cpu_temp gpu_usage gpu_temp ram_mb vram_mb =
     (let h = DX11Hook_SetMetrics (hook st) cpu_usage cpu_temp gpu_usage gpu_temp ram_mb vram_mb;
          m = (g_metrics st)\<lparr>metrics_cpuUsage := cpu_usage, metrics_cpuTemp := cpu_temp,
                 metrics_gpuUsage := gpu_usage, metrics_gpuTemp := gpu_temp,
                 metrics_ramUsage := ram_mb, metrics_vramUsage := vram_mb,
                 metrics_fps := DX11Hook_GetFPS h,
                 metrics_frameTime := DX11Hook_GetFrameTime h\<rparr>
      in st\<lparr>hook := h, g_metrics := m\<rparr>)"

definition SetOverlayColor ::
  "'w globals \<Rightarrow> float32 \<Rightarrow> float32 \<Rightarrow> float32 \<Rightarrow> float32 \<Rightarrow> 'w globals" where
  "SetOverlayColor st r g b a =
     (let c = (g_config st)\<lparr>color := (r, g, b, a)\<rparr>
      in st\<lparr>g_config := c, overlay := ImGuiOverlay_SetConfig (overlay st) c\<rparr>)"

definition SetOverlayFontSize :: "'w globals \<Rightarrow> int \<Rightarrow> 'w globals" where
  "SetOverlayFontSize st sz =
     (let c = (g_config st)\<lparr>fontSize := sz\<rparr>
      in st\<lparr>g_config := c, overlay := ImGuiOverlay_SetConfig (overlay st) c\<rparr>)"

definition SetOverlayShowFPS :: "'w globals \<Rightarrow> bool \<Rightarrow> 'w globals" where
  "SetOverlayShowFPS st show =
     (let c = (g_config st)\<lparr>showFPS := show\<rparr>
      in st\<lparr>g_config := c, overlay := ImGuiOverlay_SetConfig (overlay st) c\<rparr>)"

definition SetOverlayShowCPU :: "'w globals \<Rightarrow> bool \<Rightarrow> 'w globals" where
  "SetOverlayShowCPU st show =
     (let c = (g_config st)\<lparr>showCPU := show\<rparr>
      in st\<lparr>g_config := c, overlay := ImGuiOverlay_SetConfig (overlay st) c\<rparr>)"

definition SetOverlayShowGPU :: "'w globals \<Rightarrow> bool \<Rightarrow> 'w globals" where
  "SetOverlayShowGPU st show =
     (let c = (g_config st)\<lparr>showGPU := show\<rparr>
      in st\<lparr>g_config := c, overlay := ImGuiOverlay_SetConfig (overlay st) c\<rparr>)"

definition SetOverlayShowRAM :: "'w globals \<Rightarrow> bool \<Rightarrow> 'w globals" where
  "SetOverlayShowRAM st show =
     (let c = (g_config st)\<lparr>showRAM := show\<rparr>
      in st\<lparr>g_config := c, overlay := ImGuiOverlay_SetConfig (overlay st) c\<rparr>)"

definition SetOverlayShowTemps :: "'w globals \<Rightarrow> bool \<Rightarrow> 'w globals" where
  "SetOverlayShowTemps st show =
     (let c = (g_config st)\<lparr>showTemps := show\<rparr>
      in st\<lparr>g_config := c, overlay := ImGuiOverlay_SetConfig (overlay st) c\<rparr>)"

section \<open>The lines of the overlay, as the specification words them\<close>

text \<open>
  These definitions follow the specification's description of the composed text, not the
  code: one line per metric, the temperature in a suffix. The theorems below compare
  \<open>GetRenderedText\<close> with them.
\<close>

definition fps_line :: "OverlayMetrics \<Rightarrow> string" where
  "fps_line m = ''FPS: '' @ fmt_f 1 (metrics_fps m)"

definition temp_suffix :: "float32 \<Rightarrow> string" where
  "temp_suffix t = '' ('' @ fmt_f 0 t @ degree_sign @ ''C)''"

definition cpu_line :: "bool \<Rightarrow> OverlayMetrics \<Rightarrow> string" where
  "cpu_line temps m =
     ''CPU: '' @ fmt_f 1 (metrics_cpuUsage m) @ ''%'' @
     (if temps then temp_suffix (metrics_cpuTemp m) else [])"

definition gpu_line :: "bool \<Rightarrow> OverlayMetrics \<Rightarrow> string" where
  "gpu_line temps m =
     ''GPU: '' @ fmt_f 1 (metrics_gpuUsage m) @ ''%'' @
     (if temps then temp_suffix (metrics_gpuTemp m) else [])"

definition ram_line :: "OverlayMetrics \<Rightarrow> string" where
  "ram_line m = ''RAM: '' @ fmt_d (metrics_ramUsage m) @ '' MB''"

definition vram_line :: "OverlayMetrics \<Rightarrow> string" where
  "vram_line m = ''VRAM: '' @ fmt_d (metrics_vramUsage m) @ '' MB''"

text \<open>A text made of lines, each ended by a newline.\<close>

definition unlines :: "string list \<Rightarrow> string" where
  "unlines ls = concat (map (\<lambda>l. l @ [newline]) ls)"

text \<open>A state of the text block of \<open>Render\<close> whose buffer has its 512 characters and
  whose offset is at most \<open>b\<close>.\<close>

definition in_bounds :: "nat \<Rightarrow> char option list \<times> nat \<Rightarrow> bool" where
  "in_bounds b st = (length (fst st) = 512 \<and> snd st \<le> b)"

section \<open>Sample inputs\<close>

text \<open>
  A host whose state is the list of the \<open>Present\<close> calls it has received, and whose
  \<open>Present\<close> returns \<open>DXGI_ERROR_DEVICE_REMOVED\<close>; a probe that finds it, and one that
  fails with \<open>DXGI_ERROR_UNSUPPORTED\<close>.
\<close>

definition logging_Present :: "(pointer \<times> UINT \<times> UINT) list PresentFunc" where
  "logging_Present w sc si fl = (0x887A0005, w @ [(sc, si, fl)])"

definition probe_ok :: "(pointer \<times> UINT \<times> UINT) list DeviceProbe" where
  "probe_ok = \<lparr>probe_hr = 0, probe_swapChain = 4096, probe_device = 8192,
     probe_context = 12288, probe_Present = logging_Present\<rparr>"

definition probe_failed :: "(pointer \<times> UINT \<times> UINT) list DeviceProbe" where
  "probe_failed = \<lparr>probe_hr = 0x887A0004, probe_swapChain = 0, probe_device = 0,
     probe_context = 0, probe_Present = logging_Present\<rparr>"

text \<open>The hook after a successful \<open>Initialize\<close> at time 5 on a fresh instance.\<close>

definition installed_hook :: "(pointer \<times> UINT \<times> UINT) list DX11Hook" where
  "installed_hook =
     DX11Hook_default\<lparr>swapChain := 4096, device := 8192, context_ptr := 12288,
        originalPresent := Some logging_Present, lastFrameTime := 5, initialized := True\<rparr>"

text \<open>A configuration that differs from the defaults in every member.\<close>

definition custom_config :: OverlayConfig where
  "custom_config =
     \<lparr>fontFamily = ''Consolas'' @ replicate 56 (CHR 0x00), fontSize = 20,
      color = (f32_1, f32_0, f32_0, f32_0_5), opacity = f32_0_5,
      showFPS = False, showCPU = False, showGPU = False, showRAM = False, showTemps = False\<rparr>"

section \<open>Values of the arithmetic and of the conversions\<close>

text \<open>
  The frame times of ticks 200 ms, 16 ms and 2 s apart, the sums and the quotient of a
  window of three ticks of 200 ms, and the texts of the telemetry values 50.0, 65.0, 80.0,
  70.0, 8192 and 4096.
\<close>

text \<open>The bit patterns used for the literals, and some well-known results of
  single-precision arithmetic: 1/3, 0.1 + 0.2, 0.1 * 0.1, \<open>2 ^ 24 + 1\<close>, an overflow, a
  division by zero and a tie among the subnormal numbers.\<close>

lemma literal_patterns:
  "f32_of_int 0 = f32_0"
  "f32_div (f32_of_int 1) (f32_of_int 2) = f32_0_5"
  "f32_of_int 1 = f32_1"
  "f32_div (f32_of_int 8) (f32_of_int 10) = f32_0_8"
  "f32_of_int 500 = f32_500"
  "f32_of_int 1000 = f32_1000"
  "f32_of_int 50 = 0x42480000"
  "f32_of_int 65 = 0x42820000"
  "f32_of_int 80 = 0x42A00000"
  "f32_of_int 70 = 0x428C0000"
  by code_simp+

lemma known_results:
  "f32_div 0x3F800000 0x40400000 = 0x3EAAAAAB"
  "f32_add 0x3DCCCCCD 0x3E4CCCCD = 0x3E99999A"
  "f32_mul 0x3DCCCCCD 0x3DCCCCCD = 0x3C23D70B"
  "f32_of_int 16777217 = 0x4B800000"
  "f32_add 0x7F7FFFFF 0x7F7FFFFF = 0x7F800000"
  "f32_div 0xBF800000 0x00000000 = 0xFF800000"
  "f32_div 0x00000003 0x40000000 = 0x00000002"
  "f32_ge 0x00000000 0x80000000"
  "\<not> f32_ge f32_nan f32_nan"
  by code_simp+

lemma sample_floats:
  "frame_ms 200000000 = 0x43480000"
  "f32_add f32_0 0x43480000 = 0x43480000"
  "f32_add 0x43480000 0x43480000 = 0x43C80000"
  "f32_add 0x43C80000 0x43480000 = 0x44160000"
  "\<not> f32_ge 0x43480000 f32_500"
  "\<not> f32_ge 0x43C80000 f32_500"
  "f32_ge 0x44160000 f32_500"
  "f32_div (f32_mul (f32_of_int 3) f32_1000) 0x44160000 = 0x40A00000"
  by code_simp+

lemma wrap_floats:
  "frame_ms 500000000 = 0x43FA0000"
  "f32_add f32_0 0x43FA0000 = 0x43FA0000"
  "f32_ge 0x43FA0000 f32_500"
  "f32_div (f32_mul (f32_of_int (- 2147483648)) f32_1000) 0x43FA0000 = 0xCF800000"
  by code_simp+

lemma sample_frame_ms:
  "frame_ms 16000000 = 0x41800000"
  "frame_ms 2000000000 = 0x44FA0000"
  "f32_div (f32_of_int 0) f32_1000 = f32_0"
  by code_simp+

lemma sample_formats:
  "fmt_f 1 0x42480000 = ''50.0''"
  "fmt_f 0 0x42820000 = ''65''"
  "fmt_f 1 0x42A00000 = ''80.0''"
  "fmt_f 0 0x428C0000 = ''70''"
  "fmt_d 8192 = ''8192''"
  "fmt_d 4096 = ''4096''"
  "fmt_f 1 f32_0 = ''0.0''"
  by code_simp+

lemma frame_ms_zero: "\<bar>d\<bar> < 1000 \<Longrightarrow> frame_ms d = f32_0"
  by (simp add: frame_ms_def duration_cast_microseconds_def sample_frame_ms)

section \<open>Lengths of the formatted texts\<close>

lemma dec_digits_length:
  "0 < k \<Longrightarrow> n < 10 ^ k \<Longrightarrow> length (dec_digits n) \<le> k"
proof (induction k arbitrary: n)
  case 0
  then show ?case by simp
next
  case (Suc k)
  show ?case
  proof (cases "n < 10")
    case True
    then show ?thesis
      by (subst dec_digits.simps) simp
  next
    case False
    with Suc.prems have k: "0 < k"
      by (cases k) auto
    from Suc.prems have "n div 10 < 10 ^ k"
      by simp
    from Suc.IH [OF k this] False show ?thesis
      by (subst dec_digits.simps) simp
  qed
qed

lemma dec_digits_single: "n < 10 \<Longrightarrow> length (dec_digits n) = 1"
  by (subst dec_digits.simps) simp

lemma rne_div_bounds:
  assumes "0 \<le> p" "0 < q"
  shows "0 \<le> rne_div p q" "rne_div p q \<le> p + 1"
proof -
  have d: "0 \<le> p div q" "p div q \<le> p"
    using assms by (simp add: pos_imp_zdiv_nonneg_iff)
      (metis assms div_by_1 int_one_le_iff_zero_less zdiv_mono2 zero_less_one)
  then show "0 \<le> rne_div p q" "rne_div p q \<le> p + 1"
    by (auto simp: rne_div_def Let_def)
qed

lemma f32_signif_bounds: "0 \<le> f32_signif x" "f32_signif x < 2 ^ 24"
proof -
  have "0 \<le> f32_mag x mod 2 ^ 23" "f32_mag x mod 2 ^ 23 < 2 ^ 23"
    by simp_all
  then show "0 \<le> f32_signif x" "f32_signif x < 2 ^ 24"
    by (auto simp: f32_signif_def)
qed

lemma f32_expo_finite:
  assumes "\<not> f32_is_nan x" "\<not> f32_is_inf x"
  shows "f32_expo x \<le> 104"
proof -
  from assms have "f32_mag x < 255 * 2 ^ 23"
    by (simp add: f32_is_nan_def f32_is_inf_def f32_inf_mag_def)
  then have "f32_mag x div 2 ^ 23 < 255"
    by simp
  then show ?thesis
    by (simp add: f32_expo_def)
qed

text \<open>A finite \<open>float\<close> is below \<open>2 ^ 128\<close>, so the integer that \<open>fmt_f\<close> prints is
  below \<open>2 ^ 128 * 10 ^ prec\<close>.\<close>

lemma fmt_f_finite_bound:
  assumes "\<not> f32_is_nan x" "\<not> f32_is_inf x"
  shows "0 \<le> rne_div (f32_signif x * 10 ^ prec * 2 ^ nat (f32_expo x)) (2 ^ nat (- f32_expo x))"
    and "rne_div (f32_signif x * 10 ^ prec * 2 ^ nat (f32_expo x)) (2 ^ nat (- f32_expo x))
           \<le> 2 ^ 24 * 10 ^ prec * 2 ^ 104"
proof -
  let ?p = "f32_signif x * 10 ^ prec * 2 ^ nat (f32_expo x)"
  let ?q = "(2 :: int) ^ nat (- f32_expo x)"
  have q: "0 < ?q" by simp
  have p0: "0 \<le> ?p" using f32_signif_bounds(1) [of x] by simp
  have "nat (f32_expo x) \<le> 104"
    using f32_expo_finite [OF assms] by simp
  then have pw: "(2 :: int) ^ nat (f32_expo x) \<le> 2 ^ 104"
    by (intro power_increasing) simp_all
  have "f32_signif x + 1 \<le> 2 ^ 24"
    using f32_signif_bounds(2) [of x] by simp
  then have "(f32_signif x + 1) * 10 ^ prec \<le> 2 ^ 24 * 10 ^ prec"
    by (intro mult_right_mono) simp_all
  then have "(f32_signif x + 1) * 10 ^ prec * 2 ^ nat (f32_expo x) \<le> 2 ^ 24 * 10 ^ prec * 2 ^ 104"
    using pw by (intro mult_mono) simp_all
  moreover have "?p + 1 \<le> (f32_signif x + 1) * 10 ^ prec * 2 ^ nat (f32_expo x)"
  proof -
    have "(1 :: int) * 1 \<le> 10 ^ prec * 2 ^ nat (f32_expo x)"
      by (intro mult_mono) simp_all
    then show ?thesis by (simp add: algebra_simps)
  qed
  ultimately have "?p + 1 \<le> 2 ^ 24 * 10 ^ prec * 2 ^ 104" by linarith
  with rne_div_bounds [OF p0 q]
  show "0 \<le> rne_div ?p ?q" "rne_div ?p ?q \<le> 2 ^ 24 * 10 ^ prec * 2 ^ 104"
    by linarith+
qed

lemma fmt_f_1_length: "length (fmt_f 1 x) \<le> 42"
proof (cases "f32_is_nan x \<or> f32_is_inf x")
  case True
  then show ?thesis by (auto simp: fmt_f_def)
next
  case False
  then have fin: "\<not> f32_is_nan x" "\<not> f32_is_inf x" by simp_all
  let ?n = "rne_div (f32_signif x * 10 ^ 1 * 2 ^ nat (f32_expo x)) (2 ^ nat (- f32_expo x))"
  from fmt_f_finite_bound [OF fin, of 1] have n: "0 \<le> ?n" "?n \<le> 2 ^ 24 * 10 ^ 1 * 2 ^ 104"
    by blast+
  then have "?n div 10 < 10 ^ 39" by simp
  then have whole: "length (dec_digits (?n div 10)) \<le> 39"
    by (intro dec_digits_length) simp_all
  have frac: "length (dec_digits (?n mod 10)) = 1"
    by (intro dec_digits_single) simp
  from whole frac fin show ?thesis
    by (simp add: fmt_f_def Let_def zero_pad_def)
qed

lemma fmt_f_0_length: "length (fmt_f 0 x) \<le> 40"
proof (cases "f32_is_nan x \<or> f32_is_inf x")
  case True
  then show ?thesis by (auto simp: fmt_f_def)
next
  case False
  then have fin: "\<not> f32_is_nan x" "\<not> f32_is_inf x" by simp_all
  let ?n = "rne_div (f32_signif x * 10 ^ 0 * 2 ^ nat (f32_expo x)) (2 ^ nat (- f32_expo x))"
  from fmt_f_finite_bound [OF fin, of 0] have n: "0 \<le> ?n" "?n \<le> 2 ^ 24 * 10 ^ 0 * 2 ^ 104"
    by blast+
  then have "?n < 10 ^ 39" by simp
  then have whole: "length (dec_digits ?n) \<le> 39"
    by (intro dec_digits_length) simp_all
  from whole fin show ?thesis
    by (simp add: fmt_f_def Let_def)
qed

lemma fmt_d_length: "length (fmt_d i) \<le> 11"
proof -
  have r: "- (2 ^ 31) \<le> sint i" "sint i < 2 ^ 31"
    using sint_ge [of i] sint_lt [of i] by simp_all
  show ?thesis
  proof (cases "sint i < 0")
    case True
    with r have "- sint i < 10 ^ 10" by simp
    then have "length (dec_digits (- sint i)) \<le> 10"
      by (intro dec_digits_length) simp_all
    with True show ?thesis by (simp add: fmt_d_def)
  next
    case False
    with r have "sint i < 10 ^ 10" by simp
    then have "length (dec_digits (sint i)) \<le> 10"
      by (intro dec_digits_length) simp_all
    with False show ?thesis by (simp add: fmt_d_def)
  qed
qed

text \<open>No text of \<open>GetRenderedText\<close> is cut by its buffer of 64 characters.\<close>

lemma snprintf_fits:
  "c_str_of_snprintf 64 (''FPS: '' @ fmt_f 1 x @ [newline]) = ''FPS: '' @ fmt_f 1 x @ [newline]"
  "c_str_of_snprintf 64 (''CPU: '' @ fmt_f 1 x @ ''%'') = ''CPU: '' @ fmt_f 1 x @ ''%''"
  "c_str_of_snprintf 64 (''GPU: '' @ fmt_f 1 x @ ''%'') = ''GPU: '' @ fmt_f 1 x @ ''%''"
  "c_str_of_snprintf 64 ('' ('' @ fmt_f 0 x @ degree_sign @ ''C)'') =
     '' ('' @ fmt_f 0 x @ degree_sign @ ''C)''"
  "c_str_of_snprintf 64 (''RAM: '' @ fmt_d i @ '' MB'' @ [newline]) =
     ''RAM: '' @ fmt_d i @ '' MB'' @ [newline]"
  "c_str_of_snprintf 64 (''VRAM: '' @ fmt_d i @ '' MB'' @ [newline]) =
     ''VRAM: '' @ fmt_d i @ '' MB'' @ [newline]"
  using fmt_f_1_length [of x] fmt_f_0_length [of x] fmt_d_length [of i]
  by (simp_all add: c_str_of_snprintf_def degree_sign_def)

section \<open>Frame times that are zero\<close>

text \<open>
  Coarse bounds on the rounding: the exponent found by \<open>floor_log2\<close> is at least the
  difference of the bit lengths less one, and the pattern made by \<open>round_mag\<close> lies at
  or above the start of the binade of any lower bound of that exponent. They show that a
  non-zero count of microseconds, divided by 1000, is not rounded to zero.
\<close>

lemma bit_length_lower: "2 ^ k \<le> n \<Longrightarrow> k < bit_length n"
proof (induction k arbitrary: n)
  case 0
  then show ?case by (subst bit_length.simps) simp
next
  case (Suc k)
  then have "2 ^ k \<le> n div 2" by simp
  moreover have "0 < n"
  proof -
    have "(0 :: int) < 2 ^ Suc k" by simp
    with Suc.prems show ?thesis by linarith
  qed
  ultimately show ?case
    using Suc.IH [of "n div 2"] by (subst bit_length.simps) simp
qed

lemma bit_length_upper: "n < 2 ^ k \<Longrightarrow> bit_length n \<le> k"
proof (induction k arbitrary: n)
  case 0
  then show ?case by (subst bit_length.simps) simp
next
  case (Suc k)
  then have "n div 2 < 2 ^ k" by simp
  from Suc.IH [OF this] show ?case
    by (subst bit_length.simps) simp
qed

lemma floor_log2_lower:
  "int (bit_length p) - int (bit_length q) - 1 \<le> floor_log2 p q"
  by (simp add: floor_log2_def Let_def)

lemma round_mag_lower:
  assumes "0 < p" "0 < q" "lo \<le> floor_log2 p q" "- 126 \<le> lo"
  shows "min ((lo + 126) * 2 ^ 23) f32_inf_mag \<le> round_mag p q"
proof -
  let ?e = "max (floor_log2 p q) (- 126)"
  have "0 \<le> rne_div (p * 2 ^ nat (23 - ?e)) (q * 2 ^ nat (?e - 23))"
    using assms(1,2) by (intro rne_div_bounds) simp_all
  moreover have "(lo + 126) * 2 ^ 23 \<le> (?e + 126) * 2 ^ 23"
    using assms(3) by (intro mult_right_mono) simp_all
  ultimately show ?thesis
    using assms(1) by (simp add: round_mag_def Let_def min_def)
qed

lemma round_mag_range:
  assumes "0 \<le> p" "0 < q"
  shows "0 \<le> round_mag p q" "round_mag p q \<le> f32_inf_mag"
proof -
  let ?e = "max (floor_log2 p q) (- 126)"
  have "0 \<le> rne_div (p * 2 ^ nat (23 - ?e)) (q * 2 ^ nat (?e - 23))"
    using assms by (intro rne_div_bounds) simp_all
  moreover have "0 \<le> (?e + 126) * 2 ^ 23" by simp
  ultimately show "0 \<le> round_mag p q" "round_mag p q \<le> f32_inf_mag"
    by (simp_all add: round_mag_def Let_def f32_inf_mag_def)
qed

lemma f32_mag_make:
  assumes "0 \<le> r" "r \<le> f32_inf_mag"
  shows "f32_mag (f32_make s r) = r"
proof -
  let ?x = "(if s then 2 ^ 31 else 0) + r"
  from assms have x: "0 \<le> ?x" "?x < 2 ^ 32" and r: "r < 2 ^ 31"
    by (simp_all add: f32_inf_mag_def)
  then have "uint (word_of_int ?x :: 32 word) = ?x"
    by (simp add: uint_word_of_int_eq take_bit_int_eq_self del: of_int_add)
  moreover from assms(1) r have "?x mod 2 ^ 31 = r"
    by simp
  ultimately show ?thesis
    by (simp only: f32_mag_def f32_make_def)
qed

lemma f32_of_int_mag:
  assumes "n \<noteq> 0"
  shows "125 * 2 ^ 23 \<le> f32_mag (f32_of_int n)" "f32_mag (f32_of_int n) \<le> f32_inf_mag"
proof -
  have p: "0 < \<bar>n\<bar>" using assms by simp
  then have "2 ^ 0 \<le> \<bar>n\<bar>" by simp
  then have "0 < bit_length \<bar>n\<bar>" by (rule bit_length_lower)
  moreover have "bit_length 1 \<le> 1"
    by (rule bit_length_upper) simp
  ultimately have "- 1 \<le> floor_log2 \<bar>n\<bar> 1"
    using floor_log2_lower [of "\<bar>n\<bar>" 1] by linarith
  from round_mag_lower [OF p _ this] have "125 * 2 ^ 23 \<le> round_mag \<bar>n\<bar> 1"
    by (simp add: f32_inf_mag_def)
  moreover have r: "0 \<le> round_mag \<bar>n\<bar> 1" "round_mag \<bar>n\<bar> 1 \<le> f32_inf_mag"
    by (rule round_mag_range; simp)+
  ultimately show "125 * 2 ^ 23 \<le> f32_mag (f32_of_int n)"
    "f32_mag (f32_of_int n) \<le> f32_inf_mag"
    by (simp_all add: f32_of_int_def f32_mag_make)
qed

lemma f32_1000_fields:
  "\<not> f32_is_nan f32_1000" "\<not> f32_is_inf f32_1000" "\<not> f32_is_zero f32_1000"
  "f32_signif f32_1000 = 16384000" "f32_expo f32_1000 = - 14"
  by code_simp+

lemma f32_div_1000_nonzero:
  assumes "n \<noteq> 0"
  shows "\<not> f32_is_zero (f32_div (f32_of_int n) f32_1000)"
proof -
  let ?a = "f32_of_int n"
  let ?s = "f32_sign ?a \<noteq> f32_sign f32_1000"
  note m = f32_of_int_mag [OF assms]
  from m(2) have nan: "\<not> f32_is_nan ?a"
    by (simp add: f32_is_nan_def)
  show ?thesis
  proof (cases "f32_is_inf ?a")
    case True
    with nan have "f32_div ?a f32_1000 = f32_make ?s f32_inf_mag"
      by (simp add: f32_div_def f32_1000_fields Let_def)
    moreover have "f32_mag (f32_make ?s f32_inf_mag) = f32_inf_mag"
      by (rule f32_mag_make) (simp_all add: f32_inf_mag_def)
    ultimately show ?thesis
      by (simp add: f32_is_zero_def f32_inf_mag_def)
  next
    case False
    let ?e = "f32_expo ?a - f32_expo f32_1000"
    let ?P = "f32_signif ?a * 2 ^ nat ?e"
    let ?Q = "f32_signif f32_1000 * 2 ^ nat (- ?e)"
    have "(125 * 2 ^ 23) div 2 ^ 23 \<le> f32_mag ?a div 2 ^ 23"
      using m(1) by (intro zdiv_mono1) simp_all
    then have field: "125 \<le> f32_mag ?a div 2 ^ 23"
      by simp
    then have sig: "2 ^ 23 \<le> f32_signif ?a" and ex: "- 25 \<le> f32_expo ?a"
      by (simp_all add: f32_signif_def f32_expo_def)
    have "(1 :: int) \<le> 2 ^ nat ?e" by simp
    with sig have "2 ^ 23 * 1 \<le> ?P"
      by (intro mult_mono) simp_all
    then have P: "2 ^ 23 \<le> ?P" by simp
    have P0: "0 < ?P"
      by (rule less_le_trans [OF _ P]) simp
    from P have blP: "23 < bit_length ?P"
      by (rule bit_length_lower)
    from ex have "nat (- ?e) \<le> 11"
      by (simp add: f32_1000_fields)
    then have "(2 :: int) ^ nat (- ?e) \<le> 2 ^ 11"
      by (intro power_increasing) simp_all
    then have "?Q \<le> 16384000 * 2 ^ 11"
      by (simp add: f32_1000_fields)
    then have "?Q < 2 ^ 35" by simp
    then have blQ: "bit_length ?Q \<le> 35"
      by (rule bit_length_upper)
    have Q0: "0 < ?Q"
      by (simp add: f32_1000_fields)
    from blP blQ have "- 12 \<le> floor_log2 ?P ?Q"
      using floor_log2_lower [of ?P ?Q] by linarith
    from round_mag_lower [OF P0 Q0 this] have "114 * 2 ^ 23 \<le> round_mag ?P ?Q"
      by (simp add: f32_inf_mag_def)
    moreover have "0 \<le> round_mag ?P ?Q" "round_mag ?P ?Q \<le> f32_inf_mag"
      using P0 Q0 by (simp_all add: round_mag_range)
    ultimately have "f32_mag (f32_make ?s (round_mag ?P ?Q)) \<noteq> 0"
      by (simp add: f32_mag_make)
    moreover from nan False have "f32_div ?a f32_1000 = f32_make ?s (round_mag ?P ?Q)"
      by (simp add: f32_div_def f32_1000_fields(1,2,3) Let_def)
    ultimately show ?thesis
      by (simp add: f32_is_zero_def)
  qed
qed

lemma frame_ms_is_zero: "f32_is_zero (frame_ms d) \<longleftrightarrow> \<bar>d\<bar> < 1000"
proof
  assume z: "f32_is_zero (frame_ms d)"
  show "\<bar>d\<bar> < 1000"
  proof (rule ccontr)
    assume "\<not> \<bar>d\<bar> < 1000"
    then have big: "1000 \<le> \<bar>d\<bar>" by simp
    then have "1000 div 1000 \<le> \<bar>d\<bar> div 1000"
      by (intro zdiv_mono1) simp_all
    moreover from big have "d \<noteq> 0" by auto
    ultimately have "duration_cast_microseconds d \<noteq> 0"
      by (simp add: duration_cast_microseconds_def sgn_if)
    from f32_div_1000_nonzero [OF this] z show False
      by (simp add: frame_ms_def)
  qed
next
  assume "\<bar>d\<bar> < 1000"
  then have "frame_ms d = f32_0" by (rule frame_ms_zero)
  moreover have "f32_is_zero f32_0" by code_simp
  ultimately show "f32_is_zero (frame_ms d)" by simp
qed

section \<open>The hook: installation and forwarding\<close>

lemma CalculateFPS_frame:
  "originalPresent (DX11Hook_CalculateFPS s now) = originalPresent s"
  "initialized (DX11Hook_CalculateFPS s now) = initialized s"
  "lastFrameTime (DX11Hook_CalculateFPS s now) = now"
  "frameTime (DX11Hook_CalculateFPS s now) = frame_ms (now - lastFrameTime s)"
  by (simp_all add: DX11Hook_CalculateFPS_def Let_def frame_ms_def)

lemma sample_install:
  "DX11Hook_Initialize DX11Hook_default probe_ok 5 = (True, installed_hook)"
  by (simp add: DX11Hook_Initialize_def DX11Hook_default_def probe_ok_def FAILED_def
      installed_hook_def)

text \<open>
  C8. A call of \<open>Initialize\<close> on an instance that is already initialised returns \<open>true\<close>
  and leaves every member as it was, whatever the device probe and the clock would have
  given; so when one call has returned \<open>true\<close>, the next one returns \<open>true\<close> again and
  changes nothing. The already-installed case is a success, never an error.
\<close>

theorem Initialize_twice:
  "(initialized s \<longrightarrow> DX11Hook_Initialize s probe now = (True, s)) \<and>
   (DX11Hook_Initialize s p1 t1 = (True, s1) \<longrightarrow> DX11Hook_Initialize s1 p2 t2 = (True, s1))"
  by (auto simp: DX11Hook_Initialize_def Let_def split: if_splits)

theorem Initialize_twice_witness:
  "DX11Hook_Initialize DX11Hook_default probe_ok 5 = (True, installed_hook) \<and>
   initialized installed_hook \<and>
   DX11Hook_Initialize installed_hook probe_failed 9 = (True, installed_hook)"
proof -
  have "initialized installed_hook"
    by (simp add: installed_hook_def)
  with sample_install
    Initialize_twice [of DX11Hook_default probe_ok 5 probe_ok 5 installed_hook probe_failed 9]
  show ?thesis by blast
qed

text \<open>
  C1. When the original entry point has been captured, \<open>HookedPresent\<close> returns the code
  that the original \<open>Present\<close> returns on the very three arguments it was given, and the
  host's state afterwards is the one that single call leaves. The timing code before the
  forward is a total function of the state and the clock, so no state and no clock reading
  keeps the call from being made; no overlay code runs before it.
\<close>

theorem HookedPresent_forwards:
  "originalPresent s = Some present \<Longrightarrow>
   DX11Hook_HookedPresent s w now pSwapChain SyncInterval Flags =
     Some (fst (present w pSwapChain SyncInterval Flags), DX11Hook_CalculateFPS s now,
           snd (present w pSwapChain SyncInterval Flags))"
  by (simp add: DX11Hook_HookedPresent_def Let_def CalculateFPS_frame split: prod.splits)

theorem HookedPresent_forwards_witness:
  "originalPresent installed_hook = Some logging_Present \<and>
   DX11Hook_HookedPresent installed_hook [] 16000005 4096 1 2 =
     Some (0x887A0005, DX11Hook_CalculateFPS installed_hook 16000005, [(4096, 1, 2)])"
  using HookedPresent_forwards [of installed_hook logging_Present "[]" 16000005 4096 1 2]
  by (simp add: logging_Present_def installed_hook_def)

section \<open>The hook: frame rate and frame time\<close>

lemma CalculateFPS_below:
  "\<not> reaches_threshold s now \<Longrightarrow>
   currentFPS (DX11Hook_CalculateFPS s now) = currentFPS s \<and>
   frameCount (DX11Hook_CalculateFPS s now) = frameCount s + 1 \<and>
   fpsAccumulator (DX11Hook_CalculateFPS s now) =
     f32_add (fpsAccumulator s) (frame_ms (now - lastFrameTime s))"
  by (simp add: DX11Hook_CalculateFPS_def reaches_threshold_def frame_ms_def Let_def)

lemma CalculateFPS_reached:
  "reaches_threshold s now \<Longrightarrow>
   currentFPS (DX11Hook_CalculateFPS s now) =
     f32_div (f32_mul (f32_of_int (sint (frameCount s + 1))) f32_1000)
       (f32_add (fpsAccumulator s) (frame_ms (now - lastFrameTime s))) \<and>
   frameCount (DX11Hook_CalculateFPS s now) = 0 \<and>
   fpsAccumulator (DX11Hook_CalculateFPS s now) = f32_0"
  by (simp add: DX11Hook_CalculateFPS_def reaches_threshold_def frame_ms_def Let_def)

lemma lastFrameTime_ticks:
  "lastFrameTime (foldl DX11Hook_CalculateFPS s ts) = last (lastFrameTime s # ts)"
  by (induction ts rule: rev_induct) (simp_all add: CalculateFPS_frame)

lemma zip_previous:
  "zip (ts @ [t]) (x # ts @ [t]) = zip ts (x # ts) @ [(t, last (x # ts))]"
  by (induction ts arbitrary: x) simp_all

text \<open>Ticks none of which reaches the threshold: the published value stays, the frames
  are counted and their times summed.\<close>

lemma ticks_below:
  "\<forall>k < length ts. \<not> reaches_threshold (foldl DX11Hook_CalculateFPS s (take k ts)) (ts ! k) \<Longrightarrow>
   currentFPS (foldl DX11Hook_CalculateFPS s ts) = currentFPS s \<and>
   frameCount (foldl DX11Hook_CalculateFPS s ts) = frameCount s + of_nat (length ts) \<and>
   fpsAccumulator (foldl DX11Hook_CalculateFPS s ts) =
     foldl f32_add (fpsAccumulator s) (map frame_ms (map2 (-) ts (lastFrameTime s # ts)))"
proof (induction ts arbitrary: s)
  case Nil
  then show ?case by simp
next
  case (Cons t ts)
  from Cons.prems have first: "\<not> reaches_threshold s t"
    by auto
  have rest: "\<forall>k < length ts.
      \<not> reaches_threshold (foldl DX11Hook_CalculateFPS (DX11Hook_CalculateFPS s t) (take k ts)) (ts ! k)"
  proof (intro allI impI)
    fix k assume "k < length ts"
    then have "Suc k < length (t # ts)" by simp
    with Cons.prems have "\<not> reaches_threshold
        (foldl DX11Hook_CalculateFPS s (take (Suc k) (t # ts))) ((t # ts) ! Suc k)"
      by blast
    then show "\<not> reaches_threshold
        (foldl DX11Hook_CalculateFPS (DX11Hook_CalculateFPS s t) (take k ts)) (ts ! k)"
      by simp
  qed
  from Cons.IH [OF rest] CalculateFPS_below [OF first] show ?case
    by (simp add: CalculateFPS_frame)
qed

text \<open>
  C2. Take any state \<open>s\<close> and ticks \<open>ts\<close> none of which brings the accumulated frame time
  to 500 ms (the test of line 76 fails at each of them). Then \<open>GetFPS\<close> after these ticks
  returns what it returned before them, \<open>frameCount\<close> has grown by their number (as the
  32-bit counter counts) and \<open>fpsAccumulator\<close> by the single-precision sum of their frame
  times. If the next tick \<open>t\<close> reaches 500 ms, \<open>GetFPS\<close> then returns the frames
  counted, times 1000, divided by the milliseconds accumulated, both including that tick,
  and the counter and the accumulator are zero again; if it does not, \<open>GetFPS\<close> still
  returns the old value. With \<open>s\<close> the state left by an update (or a new instance), where
  both are zero, the frames and the milliseconds are those since the last update.
\<close>

theorem currentFPS_window:
  "\<forall>k < length ts. \<not> reaches_threshold (foldl DX11Hook_CalculateFPS s (take k ts)) (ts ! k) \<Longrightarrow>
   DX11Hook_GetFPS (foldl DX11Hook_CalculateFPS s ts) = DX11Hook_GetFPS s \<and>
   frameCount (foldl DX11Hook_CalculateFPS s ts) = frameCount s + of_nat (length ts) \<and>
   fpsAccumulator (foldl DX11Hook_CalculateFPS s ts) =
     foldl f32_add (fpsAccumulator s) (map frame_ms (map2 (-) ts (lastFrameTime s # ts))) \<and>
   (if reaches_threshold (foldl DX11Hook_CalculateFPS s ts) t
    then DX11Hook_GetFPS (foldl DX11Hook_CalculateFPS s (ts @ [t])) =
           f32_div
             (f32_mul (f32_of_int (sint (frameCount s + of_nat (length ts) + 1))) f32_1000)
             (foldl f32_add (fpsAccumulator s)
                (map frame_ms (map2 (-) (ts @ [t]) (lastFrameTime s # ts @ [t])))) \<and>
         frameCount (foldl DX11Hook_CalculateFPS s (ts @ [t])) = 0 \<and>
         fpsAccumulator (foldl DX11Hook_CalculateFPS s (ts @ [t])) = f32_0
    else DX11Hook_GetFPS (foldl DX11Hook_CalculateFPS s (ts @ [t])) = DX11Hook_GetFPS s)"
proof -
  assume below: "\<forall>k < length ts.
    \<not> reaches_threshold (foldl DX11Hook_CalculateFPS s (take k ts)) (ts ! k)"
  let ?s = "foldl DX11Hook_CalculateFPS s ts"
  note w = ticks_below [OF below]
  have deltas: "map2 (-) (ts @ [t]) (lastFrameTime s # ts @ [t]) =
      map2 (-) ts (lastFrameTime s # ts) @ [t - last (lastFrameTime s # ts)]"
    by (simp add: zip_previous)
  show ?thesis
  proof (cases "reaches_threshold ?s t")
    case True
    from CalculateFPS_reached [OF True] w show ?thesis
      by (simp add: DX11Hook_GetFPS_def True deltas lastFrameTime_ticks)
  next
    case False
    from CalculateFPS_below [OF False] w show ?thesis
      by (simp add: DX11Hook_GetFPS_def False)
  qed
qed

text \<open>Three ticks 200 ms apart after an installation at time 5: the first two leave the
  published value at 0, the third publishes 3 * 1000 / 600 = 5.0. And a counter standing
  at \<open>INT_MAX\<close> when a tick of 500 ms comes: it wraps to \<open>INT_MIN\<close>, and
  -2147483648 * 1000 / 500 = -4294967296.0 is published.\<close>

theorem currentFPS_window_witness:
  "\<not> reaches_threshold installed_hook 200000005 \<and>
   \<not> reaches_threshold (DX11Hook_CalculateFPS installed_hook 200000005) 400000005 \<and>
   reaches_threshold (foldl DX11Hook_CalculateFPS installed_hook [200000005, 400000005]) 600000005 \<and>
   DX11Hook_GetFPS installed_hook = f32_0 \<and>
   DX11Hook_GetFPS (foldl DX11Hook_CalculateFPS installed_hook [200000005, 400000005]) = f32_0 \<and>
   DX11Hook_GetFPS (foldl DX11Hook_CalculateFPS installed_hook [200000005, 400000005, 600000005]) =
     0x40A00000 \<and>
   reaches_threshold (installed_hook\<lparr>frameCount := 0x7FFFFFFF\<rparr>) 500000005 \<and>
   DX11Hook_GetFPS (foldl DX11Hook_CalculateFPS (installed_hook\<lparr>frameCount := 0x7FFFFFFF\<rparr>)
     [500000005]) = 0xCF800000"
proof -
  let ?s1 = "DX11Hook_CalculateFPS installed_hook 200000005"
  let ?s2 = "DX11Hook_CalculateFPS ?s1 400000005"
  let ?full = "installed_hook\<lparr>frameCount := 0x7FFFFFFF\<rparr>"
  have s0: "fpsAccumulator installed_hook = f32_0" "lastFrameTime installed_hook = 5"
    "frameCount installed_hook = 0" "currentFPS installed_hook = f32_0"
    by (simp_all add: installed_hook_def DX11Hook_default_def)
  have r0: "\<not> reaches_threshold installed_hook 200000005"
    by (simp add: reaches_threshold_def s0 sample_floats)
  note t1 = CalculateFPS_below [OF r0]
  have r1: "\<not> reaches_threshold ?s1 400000005"
    by (simp add: reaches_threshold_def t1 s0 CalculateFPS_frame sample_floats)
  note t2 = CalculateFPS_below [OF r1]
  have r2: "reaches_threshold ?s2 600000005"
    by (simp add: reaches_threshold_def t1 t2 s0 CalculateFPS_frame sample_floats)
  have below: "\<forall>k < length [200000005, 400000005 :: int].
      \<not> reaches_threshold (foldl DX11Hook_CalculateFPS installed_hook (take k [200000005, 400000005]))
          ([200000005, 400000005] ! k)"
  proof (intro allI impI)
    fix k :: nat assume "k < length [200000005, 400000005 :: int]"
    then have "k = 0 \<or> k = 1" by auto
    with r0 r1 show "\<not> reaches_threshold
        (foldl DX11Hook_CalculateFPS installed_hook (take k [200000005, 400000005]))
        ([200000005, 400000005] ! k)"
      by auto
  qed
  have three: "DX11Hook_GetFPS installed_hook = f32_0 \<and>
      DX11Hook_GetFPS (foldl DX11Hook_CalculateFPS installed_hook [200000005, 400000005]) = f32_0 \<and>
      DX11Hook_GetFPS (foldl DX11Hook_CalculateFPS installed_hook
        [200000005, 400000005, 600000005]) = 0x40A00000"
    using currentFPS_window [OF below, of 600000005] r2
    by (simp add: s0 sample_floats DX11Hook_GetFPS_def)
  have f0: "fpsAccumulator ?full = f32_0" "lastFrameTime ?full = 5"
    "frameCount ?full = 0x7FFFFFFF"
    by (simp_all add: installed_hook_def DX11Hook_default_def)
  have r3: "reaches_threshold ?full 500000005"
    by (simp add: reaches_threshold_def f0 wrap_floats)
  have none: "\<forall>k < length ([] :: int list).
      \<not> reaches_threshold (foldl DX11Hook_CalculateFPS ?full (take k [])) ([] ! k)"
    by simp
  have wrapped: "DX11Hook_GetFPS (foldl DX11Hook_CalculateFPS ?full [500000005]) = 0xCF800000"
    using currentFPS_window [OF none, of 500000005] r3
    by (simp add: f0 wrap_floats)
  from r0 r1 r2 three r3 wrapped show ?thesis
    by simp
qed

text \<open>
  C3, as the code has it. After a tick at \<open>t1\<close> in any state, \<open>GetFrameTime\<close> returns
  the frame time of \<open>t1\<close> minus the stored timestamp, which after \<open>Initialize\<close> is the
  time of the installation; after two or more ticks it returns the frame time of the last
  tick minus the one before it. The frame time of a difference is the difference cut to
  whole microseconds, divided by 1000 in single precision.
\<close>

theorem GetFrameTime_ticks:
  "DX11Hook_GetFrameTime (DX11Hook_CalculateFPS s t1) = frame_ms (t1 - lastFrameTime s) \<and>
   DX11Hook_GetFrameTime (foldl DX11Hook_CalculateFPS s (ts @ [t', t])) = frame_ms (t - t')"
proof -
  have "foldl DX11Hook_CalculateFPS s (ts @ [t', t]) =
      DX11Hook_CalculateFPS (foldl DX11Hook_CalculateFPS s (ts @ [t'])) t"
    by simp
  then show ?thesis
    by (simp add: DX11Hook_GetFrameTime_def CalculateFPS_frame)
qed

text \<open>
  C3 as stated fails at the first tick: installed at time 5 ns, a single tick at
  16000005 ns leaves a frame time of 16.0 ms (\<open>0x41800000\<close>), not 0.
\<close>

theorem first_tick_counterexample:
  "DX11Hook_GetFrameTime
     (foldl DX11Hook_CalculateFPS (snd (DX11Hook_Initialize DX11Hook_default probe_ok 5)) [16000005])
     = 0x41800000 \<and>
   \<not> f32_is_zero (0x41800000 :: float32)"
proof -
  have "\<not> f32_is_zero (0x41800000 :: float32)"
    by code_simp
  then show ?thesis
    by (simp add: sample_install DX11Hook_GetFrameTime_def CalculateFPS_frame installed_hook_def
        sample_frame_ms)
qed

text \<open>
  C4, as the code has it. An \<open>Initialize\<close> that installs, on an instance that was not
  initialised and with a successful probe, at \<open>t0\<close>, stores \<open>t0\<close> as the last
  timestamp. The first tick, at \<open>t1\<close>, stores \<open>t1\<close> and reports the frame time of
  \<open>t1 - t0\<close>, the delay since the installation cut to whole microseconds and divided by
  1000 in single precision: a value fixed by the delay alone, which is zero exactly when
  the delay is below a microsecond.
\<close>

theorem first_tick_since_Initialize:
  "\<not> initialized s \<Longrightarrow> DX11Hook_Initialize s probe t0 = (True, s') \<Longrightarrow>
   lastFrameTime s' = t0 \<and>
   lastFrameTime (DX11Hook_CalculateFPS s' t1) = t1 \<and>
   DX11Hook_GetFrameTime (DX11Hook_CalculateFPS s' t1) = frame_ms (t1 - t0) \<and>
   (f32_is_zero (DX11Hook_GetFrameTime (DX11Hook_CalculateFPS s' t1)) \<longleftrightarrow> \<bar>t1 - t0\<bar> < 1000) \<and>
   (\<bar>t1 - t0\<bar> < 1000 \<longrightarrow> DX11Hook_GetFrameTime (DX11Hook_CalculateFPS s' t1) = f32_0)"
  by (auto simp: DX11Hook_Initialize_def Let_def DX11Hook_GetFrameTime_def CalculateFPS_frame
      frame_ms_zero frame_ms_is_zero split: if_splits)

theorem first_tick_since_Initialize_witness:
  "\<not> initialized (DX11Hook_default :: (pointer \<times> UINT \<times> UINT) list DX11Hook) \<and>
   DX11Hook_Initialize DX11Hook_default probe_ok 5 = (True, installed_hook) \<and>
   lastFrameTime installed_hook = 5 \<and>
   DX11Hook_GetFrameTime (DX11Hook_CalculateFPS installed_hook 405) = f32_0 \<and>
   f32_is_zero (DX11Hook_GetFrameTime (DX11Hook_CalculateFPS installed_hook 405)) \<and>
   DX11Hook_GetFrameTime (DX11Hook_CalculateFPS installed_hook 2000000005) = 0x44FA0000 \<and>
   \<not> f32_is_zero (DX11Hook_GetFrameTime (DX11Hook_CalculateFPS installed_hook 2000000005))"
proof -
  have fresh: "\<not> initialized (DX11Hook_default :: (pointer \<times> UINT \<times> UINT) list DX11Hook)"
    by (simp add: DX11Hook_default_def)
  have nz: "\<not> f32_is_zero (0x44FA0000 :: float32)" "f32_is_zero f32_0"
    by code_simp+
  from first_tick_since_Initialize [OF fresh sample_install, of 405]
    first_tick_since_Initialize [OF fresh sample_install, of 2000000005]
    fresh sample_install nz
  show ?thesis
    by (simp add: sample_frame_ms frame_ms_zero frame_ms_is_zero)
qed

text \<open>
  C4 as stated fails as soon as the host waits: installed at 5 s, a first tick at 7 s
  reports 2000.0 ms (\<open>0x44FA0000\<close>).
\<close>

theorem first_tick_delay_counterexample:
  "DX11Hook_GetFrameTime
     (DX11Hook_CalculateFPS (snd (DX11Hook_Initialize DX11Hook_default probe_ok 5000000000))
        7000000000) = 0x44FA0000 \<and>
   \<not> f32_is_zero (0x44FA0000 :: float32)"
proof -
  have "\<not> f32_is_zero (0x44FA0000 :: float32)"
    by code_simp
  then show ?thesis
    by (simp add: DX11Hook_Initialize_def DX11Hook_default_def probe_ok_def FAILED_def
        Let_def DX11Hook_GetFrameTime_def CalculateFPS_frame sample_frame_ms)
qed

section \<open>The overlay: the composed text\<close>

text \<open>
  C5. The text of \<open>GetRenderedText\<close> is made of lines, each ended by a newline, taken in
  this order from the FPS line, the CPU line, the GPU line, the RAM line and the VRAM
  line: a line is there exactly when its flag is set (\<open>showRAM\<close> for the last two), and
  nothing stands in for a line that is left out. \<open>showTemps\<close> decides only whether the
  CPU and the GPU line carry their temperature suffix. So clearing one flag takes away the
  lines it gates (for \<open>showTemps\<close>, the two suffixes) and leaves the others as they
  were, in their order.
\<close>

theorem GetRenderedText_lines:
  "ImGuiOverlay_GetRenderedText ov m =
     unlines (map snd (filter fst
       [(showFPS (config ov), fps_line m),
        (showCPU (config ov), cpu_line (showTemps (config ov)) m),
        (showGPU (config ov), gpu_line (showTemps (config ov)) m),
        (showRAM (config ov), ram_line m),
        (showRAM (config ov), vram_line m)])) \<and>
   ImGuiOverlay_GetRenderedText (ImGuiOverlay_SetConfig ov ((config ov)\<lparr>showFPS := False\<rparr>)) m =
     unlines (map snd (filter fst
       [(showCPU (config ov), cpu_line (showTemps (config ov)) m),
        (showGPU (config ov), gpu_line (showTemps (config ov)) m),
        (showRAM (config ov), ram_line m),
        (showRAM (config ov), vram_line m)])) \<and>
   ImGuiOverlay_GetRenderedText (ImGuiOverlay_SetConfig ov ((config ov)\<lparr>showCPU := False\<rparr>)) m =
     unlines (map snd (filter fst
       [(showFPS (config ov), fps_line m),
        (showGPU (config ov), gpu_line (showTemps (config ov)) m),
        (showRAM (config ov), ram_line m),
        (showRAM (config ov), vram_line m)])) \<and>
   ImGuiOverlay_GetRenderedText (ImGuiOverlay_SetConfig ov ((config ov)\<lparr>showGPU := False\<rparr>)) m =
     unlines (map snd (filter fst
       [(showFPS (config ov), fps_line m),
        (showCPU (config ov), cpu_line (showTemps (config ov)) m),
        (showRAM (config ov), ram_line m),
        (showRAM (config ov), vram_line m)])) \<and>
   ImGuiOverlay_GetRenderedText (ImGuiOverlay_SetConfig ov ((config ov)\<lparr>showRAM := False\<rparr>)) m =
     unlines (map snd (filter fst
       [(showFPS (config ov), fps_line m),
        (showCPU (config ov), cpu_line (showTemps (config ov)) m),
        (showGPU (config ov), gpu_line (showTemps (config ov)) m)])) \<and>
   ImGuiOverlay_GetRenderedText (ImGuiOverlay_SetConfig ov ((config ov)\<lparr>showTemps := False\<rparr>)) m =
     unlines (map snd (filter fst
       [(showFPS (config ov), fps_line m),
        (showCPU (config ov), cpu_line False m),
        (showGPU (config ov), gpu_line False m),
        (showRAM (config ov), ram_line m),
        (showRAM (config ov), vram_line m)]))"
  unfolding ImGuiOverlay_GetRenderedText_def Let_def snprintf_fits
  by (simp add: unlines_def fps_line_def cpu_line_def gpu_line_def ram_line_def vram_line_def
      temp_suffix_def ImGuiOverlay_SetConfig_def)

text \<open>With the defaults and \<open>showCPU\<close> cleared, the metrics of C6 give the four other
  lines.\<close>

theorem GetRenderedText_lines_witness:
  "ImGuiOverlay_GetRenderedText
     (ImGuiOverlay_SetConfig ImGuiOverlay_static
        ((config ImGuiOverlay_static)\<lparr>showCPU := False\<rparr>))
     (g_metrics (SetMetrics (globals_at_load :: unit globals)
        0x42480000 0x42820000 0x42A00000 0x428C0000 8192 4096)) =
   ''FPS: 0.0'' @ [newline] @
   ''GPU: 80.0% (70'' @ [CHR 0xC2, CHR 0xB0] @ ''C)'' @ [newline] @
   ''RAM: 8192 MB'' @ [newline] @
   ''VRAM: 4096 MB'' @ [newline]"
proof -
  let ?m = "g_metrics (SetMetrics (globals_at_load :: unit globals)
        0x42480000 0x42820000 0x42A00000 0x428C0000 8192 4096)"
  have flags: "showFPS (config ImGuiOverlay_static)" "showGPU (config ImGuiOverlay_static)"
    "showRAM (config ImGuiOverlay_static)" "showTemps (config ImGuiOverlay_static)"
    by (simp_all add: ImGuiOverlay_static_def OverlayConfig_default_def)
  have m: "metrics_fps ?m = f32_0" "metrics_gpuUsage ?m = 0x42A00000"
    "metrics_gpuTemp ?m = 0x428C0000" "metrics_ramUsage ?m = 8192" "metrics_vramUsage ?m = 4096"
    by (simp_all add: SetMetrics_def Let_def DX11Hook_SetMetrics_def DX11Hook_GetFPS_def
        globals_at_load_def DX11Hook_default_def)
  from GetRenderedText_lines [of ImGuiOverlay_static ?m]
  show ?thesis
    by (simp add: flags m unlines_def fps_line_def gpu_line_def ram_line_def vram_line_def
        temp_suffix_def degree_sign_def sample_formats del: One_nat_def)
qed

text \<open>
  C6. After \<open>SetMetrics(50.0, 65.0, 80.0, 70.0, 8192, 4096)\<close>, and with the five flags
  set, the text of \<open>GetRenderedText\<close> on the metrics that call has stored is the five
  lines below; the FPS is the one the hook published, with one decimal.
\<close>

theorem telemetry_scenario:
  "showFPS (config ov) \<Longrightarrow> showCPU (config ov) \<Longrightarrow> showGPU (config ov) \<Longrightarrow>
   showRAM (config ov) \<Longrightarrow> showTemps (config ov) \<Longrightarrow>
   ImGuiOverlay_GetRenderedText ov
     (g_metrics (SetMetrics st 0x42480000 0x42820000 0x42A00000 0x428C0000 8192 4096)) =
   unlines
     [''FPS: '' @ fmt_f 1 (DX11Hook_GetFPS (hook st)),
      ''CPU: 50.0% (65'' @ degree_sign @ ''C)'',
      ''GPU: 80.0% (70'' @ degree_sign @ ''C)'',
      ''RAM: 8192 MB'',
      ''VRAM: 4096 MB'']"
  unfolding ImGuiOverlay_GetRenderedText_def Let_def snprintf_fits
  by (simp add: unlines_def SetMetrics_def DX11Hook_SetMetrics_def DX11Hook_GetFPS_def
      Let_def sample_formats del: One_nat_def)

theorem telemetry_scenario_witness:
  "showFPS (config ImGuiOverlay_static) \<and> showCPU (config ImGuiOverlay_static) \<and>
   showGPU (config ImGuiOverlay_static) \<and> showRAM (config ImGuiOverlay_static) \<and>
   showTemps (config ImGuiOverlay_static) \<and>
   ImGuiOverlay_GetRenderedText ImGuiOverlay_static
     (g_metrics (SetMetrics (globals_at_load :: unit globals)
        0x42480000 0x42820000 0x42A00000 0x428C0000 8192 4096)) =
   ''FPS: 0.0'' @ [newline] @
   ''CPU: 50.0% (65'' @ [CHR 0xC2, CHR 0xB0] @ ''C)'' @ [newline] @
   ''GPU: 80.0% (70'' @ [CHR 0xC2, CHR 0xB0] @ ''C)'' @ [newline] @
   ''RAM: 8192 MB'' @ [newline] @
   ''VRAM: 4096 MB'' @ [newline]"
proof -
  have flags: "showFPS (config ImGuiOverlay_static)" "showCPU (config ImGuiOverlay_static)"
    "showGPU (config ImGuiOverlay_static)" "showRAM (config ImGuiOverlay_static)"
    "showTemps (config ImGuiOverlay_static)"
    by (simp_all add: ImGuiOverlay_static_def OverlayConfig_default_def)
  have fps: "DX11Hook_GetFPS (hook (globals_at_load :: unit globals)) = f32_0"
    by (simp add: globals_at_load_def DX11Hook_default_def DX11Hook_GetFPS_def)
  from telemetry_scenario [OF flags, of "globals_at_load :: unit globals"] flags
  show ?thesis
    by (simp add: fps sample_formats unlines_def degree_sign_def del: One_nat_def)
qed

section \<open>The overlay: the buffer of \<open>Render\<close>\<close>

lemma snprintf_at_in_bounds:
  assumes "in_bounds b st" "b \<le> 512" "length text \<le> n"
  shows "\<exists>st'. snprintf_at st text = Some st' \<and> in_bounds (b + n) st'"
proof -
  obtain buffer offset where st: "st = (buffer, offset)"
    by (cases st)
  with assms have "length buffer = 512" "offset \<le> 512" "offset \<le> b"
    by (simp_all add: in_bounds_def)
  with assms(3) st show ?thesis
    by (auto simp: snprintf_at_def in_bounds_def Let_def)
qed

lemma optional_snprintf_in_bounds:
  assumes "in_bounds b st" "b \<le> 512" "length text \<le> n"
  shows "\<exists>st'. (if c then snprintf_at st text else Some st) = Some st' \<and> in_bounds (b + n) st'"
proof (cases c)
  case True
  with snprintf_at_in_bounds [OF assms] show ?thesis by simp
next
  case False
  with assms(1) show ?thesis by (simp add: in_bounds_def)
qed

text \<open>The three writes of a CPU or GPU line add at most 48, 46 and 1 to the offset.\<close>

lemma usage_block_in_bounds:
  assumes "in_bounds b st" "b + 95 \<le> 512" "length label = 5"
  shows "\<exists>st'. do {
            st \<leftarrow> snprintf_at st (label @ fmt_f 1 usage @ ''%'');
            st \<leftarrow> (if temps
                   then snprintf_at st ('' ('' @ fmt_f 0 temp @ degree_sign @ ''C)'')
                   else Some st);
            snprintf_at st [newline]
          } = Some st' \<and> in_bounds (b + 95) st'"
proof -
  have "length (label @ fmt_f 1 usage @ ''%'') \<le> 48"
    using fmt_f_1_length [of usage] assms(3) by simp
  with assms obtain st1 where 1: "snprintf_at st (label @ fmt_f 1 usage @ ''%'') = Some st1"
      "in_bounds (b + 48) st1"
    using snprintf_at_in_bounds [of b st "label @ fmt_f 1 usage @ ''%''" 48] by auto
  have "length ('' ('' @ fmt_f 0 temp @ degree_sign @ ''C)'') \<le> 46"
    using fmt_f_0_length [of temp] by (simp add: degree_sign_def)
  with 1 assms(2) obtain st2 where 2:
      "(if temps then snprintf_at st1 ('' ('' @ fmt_f 0 temp @ degree_sign @ ''C)'')
        else Some st1) = Some st2"
      "in_bounds (b + 48 + 46) st2"
    using optional_snprintf_in_bounds
      [of "b + 48" st1 "'' ('' @ fmt_f 0 temp @ degree_sign @ ''C)''" 46 temps]
    by auto
  from 2 assms(2) obtain st3 where 3: "snprintf_at st2 [newline] = Some st3"
      "in_bounds (b + 48 + 46 + 1) st3"
    using snprintf_at_in_bounds [of "b + 48 + 46" st2 "[newline]" 1] by auto
  from 1 2 3 show ?thesis
    by (simp add: ac_simps)
qed

text \<open>The two writes of the memory lines add at most 20 and 21.\<close>

lemma memory_block_in_bounds:
  assumes "in_bounds b st" "b + 41 \<le> 512"
  shows "\<exists>st'. do {
            st \<leftarrow> snprintf_at st (''RAM: '' @ fmt_d ram @ '' MB'' @ [newline]);
            snprintf_at st (''VRAM: '' @ fmt_d vram @ '' MB'' @ [newline])
          } = Some st' \<and> in_bounds (b + 41) st'"
proof -
  have "length (''RAM: '' @ fmt_d ram @ '' MB'' @ [newline]) \<le> 20"
    using fmt_d_length [of ram] by simp
  with assms obtain st1 where 1:
      "snprintf_at st (''RAM: '' @ fmt_d ram @ '' MB'' @ [newline]) = Some st1"
      "in_bounds (b + 20) st1"
    using snprintf_at_in_bounds [of b st "''RAM: '' @ fmt_d ram @ '' MB'' @ [newline]" 20]
    by auto
  have "length (''VRAM: '' @ fmt_d vram @ '' MB'' @ [newline]) \<le> 21"
    using fmt_d_length [of vram] by simp
  with 1 assms(2) obtain st2 where 2:
      "snprintf_at st1 (''VRAM: '' @ fmt_d vram @ '' MB'' @ [newline]) = Some st2"
      "in_bounds (b + 20 + 21) st2"
    using snprintf_at_in_bounds
      [of "b + 20" st1 "''VRAM: '' @ fmt_d vram @ '' MB'' @ [newline]" 21]
    by auto
  from 1 2 show ?thesis
    by (simp add: ac_simps)
qed

lemma Render_text_in_bounds:
  "\<exists>st. Render_text cfg metrics = Some st \<and> in_bounds 279 st"
proof -
  have 0: "in_bounds 0 (replicate 512 None, 0)"
    by (simp add: in_bounds_def)
  have "length (''FPS: '' @ fmt_f 1 (metrics_fps metrics) @ [newline]) \<le> 48"
    using fmt_f_1_length [of "metrics_fps metrics"] by simp
  with 0 obtain st1 where 1:
      "(if showFPS cfg
        then snprintf_at (replicate 512 None, 0)
               (''FPS: '' @ fmt_f 1 (metrics_fps metrics) @ [newline])
        else Some (replicate 512 None, 0)) = Some st1"
      "in_bounds 48 st1"
    using optional_snprintf_in_bounds
      [of 0 "(replicate 512 None, 0)" "''FPS: '' @ fmt_f 1 (metrics_fps metrics) @ [newline]"
          48 "showFPS cfg"]
    by auto
  obtain st2 where 2:
      "(if showCPU cfg
        then do {
          st \<leftarrow> snprintf_at st1 (''CPU: '' @ fmt_f 1 (metrics_cpuUsage metrics) @ ''%'');
          st \<leftarrow> (if showTemps cfg
                 then snprintf_at st
                        ('' ('' @ fmt_f 0 (metrics_cpuTemp metrics) @ degree_sign @ ''C)'')
                 else Some st);
          snprintf_at st [newline]
        }
        else Some st1) = Some st2"
      "in_bounds 143 st2"
  proof (cases "showCPU cfg")
    case True
    with usage_block_in_bounds [OF 1(2), of "''CPU: ''" "metrics_cpuUsage metrics"
        "showTemps cfg" "metrics_cpuTemp metrics"] that
    show ?thesis by auto
  next
    case False
    with 1(2) that [of st1] show ?thesis by (simp add: in_bounds_def)
  qed
  obtain st3 where 3:
      "(if showGPU cfg
        then do {
          st \<leftarrow> snprintf_at st2 (''GPU: '' @ fmt_f 1 (metrics_gpuUsage metrics) @ ''%'');
          st \<leftarrow> (if showTemps cfg
                 then snprintf_at st
                        ('' ('' @ fmt_f 0 (metrics_gpuTemp metrics) @ degree_sign @ ''C)'')
                 else Some st);
          snprintf_at st [newline]
        }
        else Some st2) = Some st3"
      "in_bounds 238 st3"
  proof (cases "showGPU cfg")
    case True
    with usage_block_in_bounds [OF 2(2), of "''GPU: ''" "metrics_gpuUsage metrics"
        "showTemps cfg" "metrics_gpuTemp metrics"] that
    show ?thesis by auto
  next
    case False
    with 2(2) that [of st2] show ?thesis by (simp add: in_bounds_def)
  qed
  obtain st4 where 4:
      "(if showRAM cfg
        then do {
          st \<leftarrow> snprintf_at st3
                 (''RAM: '' @ fmt_d (metrics_ramUsage metrics) @ '' MB'' @ [newline]);
          snprintf_at st
            (''VRAM: '' @ fmt_d (metrics_vramUsage metrics) @ '' MB'' @ [newline])
        }
        else Some st3) = Some st4"
      "in_bounds 279 st4"
  proof (cases "showRAM cfg")
    case True
    with memory_block_in_bounds [OF 3(2), of "metrics_ramUsage metrics"
        "metrics_vramUsage metrics"] that
    show ?thesis by auto
  next
    case False
    with 3(2) that [of st3] show ?thesis by (simp add: in_bounds_def)
  qed
  from 1 2 3 4 show ?thesis
    unfolding Render_text_def by simp
qed

text \<open>
  C9. For every configuration and all metrics the text block of \<open>Render\<close> runs to its end:
  no \<open>snprintf\<close> is reached with an offset beyond the 512 characters of the buffer, where
  the size \<open>sizeof(buffer) - offset\<close> would wrap and \<open>buffer + offset\<close> would leave the
  array. The buffer keeps its size, and the final offset, the largest since the offset only
  grows, is at most 279: 48 for the FPS line, 95 each for the CPU and the GPU line, 41
  for the memory lines, a \<open>float\<close> taking at most 42 characters with one decimal and 40
  with none, an \<open>int\<close> at most 11.
\<close>

theorem Render_text_offsets:
  "\<exists>buffer offset. Render_text cfg metrics = Some (buffer, offset) \<and>
     length buffer = 512 \<and> offset \<le> 279"
  using Render_text_in_bounds [of cfg metrics]
  by (auto simp: in_bounds_def)

lemma Render_unchanged: "ImGuiOverlay_Render ov metrics = Some ov"
  using Render_text_in_bounds [of "config ov" metrics]
  by (auto simp: ImGuiOverlay_Render_def)

text \<open>
  C7. When the overlay is hidden or not initialised, \<open>Render\<close> returns with the state of
  the overlay as it was; and in every state, for all metrics, \<open>Render\<close> returns: nothing
  in it fails.
\<close>

theorem Render_no_failure:
  "(\<not> isVisible ov \<or> \<not> overlay_initialized ov \<longrightarrow> ImGuiOverlay_Render ov metrics = Some ov) \<and>
   ImGuiOverlay_Render ov metrics \<noteq> None"
  by (simp add: Render_unchanged)

theorem Render_no_failure_witness:
  "\<not> overlay_initialized ImGuiOverlay_static \<and>
   ImGuiOverlay_Render ImGuiOverlay_static OverlayMetrics_default = Some ImGuiOverlay_static \<and>
   ImGuiOverlay_Render (ImGuiOverlay_Initialize ImGuiOverlay_static) OverlayMetrics_default \<noteq> None"
proof -
  have "\<not> overlay_initialized ImGuiOverlay_static"
    by (simp add: ImGuiOverlay_static_def)
  with Render_no_failure [of ImGuiOverlay_static OverlayMetrics_default]
    Render_no_failure [of "ImGuiOverlay_Initialize ImGuiOverlay_static" OverlayMetrics_default]
  show ?thesis by blast
qed

section \<open>The overlay: the configuration and \<open>Initialize\<close>\<close>

lemma c_str_strncpy: "c_str (strncpy dest ''Segoe UI'' 63) = ''Segoe UI''"
  by (simp add: c_str_def strncpy_def)

text \<open>
  C10. On an overlay that is not initialised, \<open>Initialize\<close> sets the font size to 14, the
  font family to the string Segoe UI, the colour to (0, 1, 0.5, 1) and the five flags to
  true, whatever configuration \<open>SetConfig\<close> has stored before: the values of that
  configuration are gone, also when they came through \<open>SetOverlayColor\<close> or
  \<open>SetOverlayShowFPS\<close>. On an overlay that is initialised, as it is after a first call,
  \<open>Initialize\<close> changes nothing.
\<close>

theorem Initialize_overwrites_config:
  "(\<not> overlay_initialized ov \<longrightarrow>
      fontSize (config (ImGuiOverlay_Initialize (ImGuiOverlay_SetConfig ov cfg))) = 14 \<and>
      c_str (fontFamily (config (ImGuiOverlay_Initialize (ImGuiOverlay_SetConfig ov cfg)))) =
        ''Segoe UI'' \<and>
      color (config (ImGuiOverlay_Initialize (ImGuiOverlay_SetConfig ov cfg))) =
        (f32_0, f32_1, f32_0_5, f32_1) \<and>
      showFPS (config (ImGuiOverlay_Initialize (ImGuiOverlay_SetConfig ov cfg))) \<and>
      showCPU (config (ImGuiOverlay_Initialize (ImGuiOverlay_SetConfig ov cfg))) \<and>
      showGPU (config (ImGuiOverlay_Initialize (ImGuiOverlay_SetConfig ov cfg))) \<and>
      showRAM (config (ImGuiOverlay_Initialize (ImGuiOverlay_SetConfig ov cfg))) \<and>
      showTemps (config (ImGuiOverlay_Initialize (ImGuiOverlay_SetConfig ov cfg))) \<and>
      overlay_initialized (ImGuiOverlay_Initialize (ImGuiOverlay_SetConfig ov cfg))) \<and>
   (\<not> overlay_initialized (overlay st) \<longrightarrow>
      color (config (ImGuiOverlay_Initialize (overlay (SetOverlayColor st r g b a)))) =
        (f32_0, f32_1, f32_0_5, f32_1) \<and>
      showFPS (config (ImGuiOverlay_Initialize (overlay (SetOverlayShowFPS st False))))) \<and>
   (overlay_initialized ov \<longrightarrow> ImGuiOverlay_Initialize ov = ov) \<and>
   ImGuiOverlay_Initialize (ImGuiOverlay_Initialize ov) = ImGuiOverlay_Initialize ov"
  by (simp add: ImGuiOverlay_Initialize_def ImGuiOverlay_SetConfig_def Let_def c_str_strncpy
      SetOverlayColor_def SetOverlayShowFPS_def)

theorem Initialize_overwrites_config_witness:
  "\<not> overlay_initialized ImGuiOverlay_static \<and>
   fontSize (config (ImGuiOverlay_SetConfig ImGuiOverlay_static custom_config)) = 20 \<and>
   \<not> showFPS (config (ImGuiOverlay_SetConfig ImGuiOverlay_static custom_config)) \<and>
   fontSize (config (ImGuiOverlay_Initialize
     (ImGuiOverlay_SetConfig ImGuiOverlay_static custom_config))) = 14 \<and>
   showFPS (config (ImGuiOverlay_Initialize
     (ImGuiOverlay_SetConfig ImGuiOverlay_static custom_config))) \<and>
   c_str (fontFamily (config (ImGuiOverlay_Initialize
     (ImGuiOverlay_SetConfig ImGuiOverlay_static custom_config)))) = ''Segoe UI'' \<and>
   overlay_initialized (ImGuiOverlay_Initialize ImGuiOverlay_static) \<and>
   ImGuiOverlay_Initialize
     (ImGuiOverlay_SetConfig (ImGuiOverlay_Initialize ImGuiOverlay_static) custom_config) =
   ImGuiOverlay_SetConfig (ImGuiOverlay_Initialize ImGuiOverlay_static) custom_config"
proof -
  have fresh: "\<not> overlay_initialized ImGuiOverlay_static"
    by (simp add: ImGuiOverlay_static_def)
  have before: "fontSize (config (ImGuiOverlay_SetConfig ImGuiOverlay_static custom_config)) = 20"
    "\<not> showFPS (config (ImGuiOverlay_SetConfig ImGuiOverlay_static custom_config))"
    by (simp_all add: ImGuiOverlay_SetConfig_def custom_config_def)
  have "overlay_initialized
      (ImGuiOverlay_SetConfig (ImGuiOverlay_Initialize ImGuiOverlay_static) custom_config)"
    using Initialize_overwrites_config
      [of ImGuiOverlay_static "config ImGuiOverlay_static" "globals_at_load :: unit globals"
          f32_0 f32_0 f32_0 f32_0] fresh
    by (simp add: ImGuiOverlay_SetConfig_def)
  with Initialize_overwrites_config
      [of ImGuiOverlay_static custom_config "globals_at_load :: unit globals"
          f32_0 f32_0 f32_0 f32_0]
    Initialize_overwrites_config
      [of "ImGuiOverlay_SetConfig (ImGuiOverlay_Initialize ImGuiOverlay_static) custom_config"
          custom_config "globals_at_load :: unit globals" f32_0 f32_0 f32_0 f32_0]
    fresh before
  show ?thesis
    by (simp add: ImGuiOverlay_SetConfig_def)
qed

end
